theory Spec2Isabelle
  imports Complex_Main
begin

section \<open>Python values used by the retrieval and verification core\<close>

text \<open>
  Strings are lists of characters; a character stands for one code point below 256.
  \<open>py_isspace\<close> is \<open>str.isspace\<close> on those code points: it decides what
  \<open>str.split()\<close> and \<open>str.strip()\<close> treat as whitespace.
\<close>

definition py_isspace :: "char \<Rightarrow> bool" where
  "py_isspace c =
     (let n = (of_char c :: nat)
      in (9 \<le> n \<and> n \<le> 13) \<or> (28 \<le> n \<and> n \<le> 32) \<or> n = 133 \<or> n = 160)"

definition py_strip :: "string \<Rightarrow> string" where
  "py_strip s = rev (dropWhile py_isspace (rev (dropWhile py_isspace s)))"

text \<open>\<open>text.split()\<close>: the maximal runs of non-whitespace characters, in order.\<close>

fun py_split_aux :: "string \<Rightarrow> string \<Rightarrow> string list" where
  "py_split_aux cur [] = (if cur = [] then [] else [cur])"
| "py_split_aux cur (c # cs) =
     (if py_isspace c
      then (if cur = [] then py_split_aux [] cs else cur # py_split_aux [] cs)
      else py_split_aux (cur @ [c]) cs)"

definition py_split :: "string \<Rightarrow> string list" where
  "py_split s = py_split_aux [] s"

text \<open>\<open>sep.join(xs)\<close>.\<close>

fun py_join :: "string \<Rightarrow> string list \<Rightarrow> string" where
  "py_join sep [] = []"
| "py_join sep [x] = x"
| "py_join sep (x # y # ys) = x @ sep @ py_join sep (y # ys)"

text \<open>
  \<open>xs[a:b]\<close> for arbitrary integers: a negative bound counts from the end, and both
  bounds are clipped to the list.
\<close>

definition py_clip :: "nat \<Rightarrow> int \<Rightarrow> nat" where
  "py_clip n a = (if a < 0 then nat (max (a + int n) 0) else min (nat a) n)"

definition py_slice :: "'a list \<Rightarrow> int \<Rightarrow> int \<Rightarrow> 'a list" where
  "py_slice xs a b =
     (let lo = py_clip (length xs) a; hi = py_clip (length xs) b
      in take (hi - lo) (drop lo xs))"

section \<open>Chunker (\<open>chunk_text\<close>)\<close>

text \<open>
  The \<open>while i < len(tokens)\<close> loop of \<open>chunk_text\<close>. The loop has no bound of its
  own, so it is a partial function: \<open>None\<close> is a run that never returns.
\<close>

partial_function (option) chunk_loop ::
  "string list \<Rightarrow> int \<Rightarrow> int \<Rightarrow> int \<Rightarrow> string list \<Rightarrow> string list option" where
  "chunk_loop tokens chunk_size overlap i chunks =
     (if i < int (length tokens)
      then chunk_loop tokens chunk_size overlap (i + (chunk_size - overlap))
             (chunks @ [py_join '' '' (py_slice tokens i (i + chunk_size))])
      else Some chunks)"

declare chunk_loop.simps [code]

definition chunk_text :: "string \<Rightarrow> int \<Rightarrow> int \<Rightarrow> string list option" where
  "chunk_text text chunk_size overlap = chunk_loop (py_split text) chunk_size overlap 0 []"

text \<open>The window starts visited by the loop when the step is positive.\<close>

function starts :: "nat \<Rightarrow> nat \<Rightarrow> nat \<Rightarrow> nat list" where
  "starts n s i = (if i < n \<and> 0 < s then i # starts n s (i + s) else [])"
  by pat_completeness auto
termination
  by (relation "measure (\<lambda>(n, s, i). n - i)") auto

declare starts.simps [simp del]

text \<open>A token as \<open>split()\<close> produces it: non-empty and free of whitespace.\<close>

definition clean_token :: "string \<Rightarrow> bool" where
  "clean_token t = (t \<noteq> [] \<and> (\<forall>c\<in>set t. \<not> py_isspace c))"

section \<open>JSON values, exceptions and HTTP exchanges\<close>

text \<open>
  A parsed JSON document (\<open>resp.json()\<close>). An object is an association list with
  distinct keys; numbers are integers (a JSON float differs only in being zero or not,
  which is all the code asks of a number).
\<close>

datatype json =
    JNull
  | JBool bool
  | JNum int
  | JStr string
  | JList "json list"
  | JDict "(string \<times> json) list"

datatype py_exn =
    AttributeError
  | TypeError
  | KeyError
  | IndexError
  | ValueError
  | RequestException
  | JSONDecodeError
  | StatusException int
  | FileNotFoundError
  | UnpicklingError
  | ValidationError

text \<open>
  What a \<open>requests\<close> call gives: no response at all (timeout, refused connection), or a
  status code with a body, \<open>None\<close> when the body is not JSON and \<open>resp.json()\<close> raises.
\<close>

datatype http_result = NoResponse | Response int "json option"

definition bind_exn :: "'e + 'a \<Rightarrow> ('a \<Rightarrow> 'e + 'b) \<Rightarrow> 'e + 'b" where
  "bind_exn m f = (case m of Inl e \<Rightarrow> Inl e | Inr x \<Rightarrow> f x)"

text \<open>Truth value of a JSON value in \<open>if data:\<close> and \<open>if not hits:\<close>.\<close>

fun py_truthy :: "json \<Rightarrow> bool" where
  "py_truthy JNull = False"
| "py_truthy (JBool b) = b"
| "py_truthy (JNum n) = (n \<noteq> 0)"
| "py_truthy (JStr s) = (s \<noteq> [])"
| "py_truthy (JList xs) = (xs \<noteq> [])"
| "py_truthy (JDict kvs) = (kvs \<noteq> [])"

definition dict_get :: "(string \<times> json) list \<Rightarrow> string \<Rightarrow> json \<Rightarrow> json" where
  "dict_get kvs k d = (case map_of kvs k of None \<Rightarrow> d | Some v \<Rightarrow> v)"

text \<open>\<open>x.get(k, d)\<close>: only a dict has \<open>get\<close>.\<close>

fun py_get :: "json \<Rightarrow> string \<Rightarrow> json \<Rightarrow> py_exn + json" where
  "py_get (JDict kvs) k d = Inr (dict_get kvs k d)"
| "py_get _ k d = Inl AttributeError"

text \<open>\<open>x[0]\<close>.\<close>

fun py_first :: "json \<Rightarrow> py_exn + json" where
  "py_first (JList []) = Inl IndexError"
| "py_first (JList (x # xs)) = Inr x"
| "py_first (JStr []) = Inl IndexError"
| "py_first (JStr (c # cs)) = Inr (JStr [c])"
| "py_first (JDict kvs) = Inl KeyError"
| "py_first _ = Inl TypeError"

text \<open>Every request the code sends, and every touch of storage, in the order made.\<close>

datatype event =
    FdaMcpPost string
  | OpenFdaGet string string
  | KbMcpPost string
  | RagLookup string nat
  | PathExists string
  | FileRead string
  | FileWrite string

text \<open>
  The collaborators outside the process: the FDA tool server's answer to
  \<open>check_drug_safety\<close> for a drug name, the public label source's answer to a search by
  key and drug name, the guideline tool server's answer to a query, and the sentence
  embedder.
\<close>

record world =
  fda_mcp :: "string \<Rightarrow> http_result"
  openfda :: "string \<Rightarrow> string \<Rightarrow> http_result"
  kb_mcp :: "string \<Rightarrow> http_result"
  embed :: "string \<Rightarrow> rat list"

section \<open>Drug-safety lookup (\<open>get_openfda_warnings\<close>)\<close>

record drug_record =
  drug_name :: string
  brand :: json
  generic :: json
  warnings :: json
  found :: bool

text \<open>Step 1, the body of the first \<open>try\<close>; \<open>Inr None\<close> falls out of it without a record.\<close>

definition fda_mcp_attempt :: "http_result \<Rightarrow> string \<Rightarrow> py_exn + drug_record option" where
  "fda_mcp_attempt resp name =
     (case resp of
        NoResponse \<Rightarrow> Inl RequestException
      | Response status_code body \<Rightarrow>
          if status_code = 200
          then (case body of
                  None \<Rightarrow> Inl JSONDecodeError
                | Some j \<Rightarrow>
                    bind_exn (py_get j ''result'' (JDict []))
                      (\<lambda>data. case data of
                         JDict kvs \<Rightarrow>
                           Inr (Some \<lparr>drug_name = name,
                                      brand = dict_get kvs ''brand'' (JStr ''N/A''),
                                      generic = dict_get kvs ''generic'' (JStr ''N/A''),
                                      warnings = dict_get kvs ''warnings''
                                                   (JStr ''No warnings available.''),
                                      found = True\<rparr>)
                       | _ \<Rightarrow> Inr None))
          else Inl (StatusException status_code))"

text \<open>The record built from a non-empty \<open>results\<close> value of the public label source.\<close>

definition openfda_record :: "json \<Rightarrow> string \<Rightarrow> py_exn + drug_record" where
  "openfda_record data name =
     bind_exn (py_first data) (\<lambda>entry.
     bind_exn (py_get entry ''openfda'' (JDict [])) (\<lambda>o1.
     bind_exn (py_get o1 ''brand_name'' (JList [JStr ''N/A''])) (\<lambda>bs.
     bind_exn (py_first bs) (\<lambda>b.
     bind_exn (py_get entry ''openfda'' (JDict [])) (\<lambda>o2.
     bind_exn (py_get o2 ''generic_name'' (JList [JStr ''N/A''])) (\<lambda>gs.
     bind_exn (py_first gs) (\<lambda>g.
     bind_exn (py_get entry ''warnings'' (JList [JStr ''No warnings available.''])) (\<lambda>ws.
     bind_exn (py_first ws) (\<lambda>wn.
       Inr \<lparr>drug_name = name, brand = b, generic = g, warnings = wn,
            found = True\<rparr>)))))))))"

text \<open>One round of the \<open>for key in ...\<close> loop; \<open>Inr None\<close> goes on to the next key.\<close>

definition openfda_try_key :: "http_result \<Rightarrow> string \<Rightarrow> py_exn + drug_record option" where
  "openfda_try_key resp name =
     (case resp of
        NoResponse \<Rightarrow> Inl RequestException
      | Response status_code body \<Rightarrow>
          if status_code = 200
          then (case body of
                  None \<Rightarrow> Inl JSONDecodeError
                | Some j \<Rightarrow>
                    bind_exn (py_get j ''results'' (JList []))
                      (\<lambda>data. if py_truthy data
                         then bind_exn (openfda_record data name) (\<lambda>r. Inr (Some r))
                         else Inr None))
          else Inr None)"

fun openfda_keys ::
  "(string \<Rightarrow> string \<Rightarrow> http_result) \<Rightarrow> string \<Rightarrow> string list
     \<Rightarrow> event list \<times> (py_exn + drug_record option)" where
  "openfda_keys api name [] = ([], Inr None)"
| "openfda_keys api name (key # keys) =
     (case openfda_try_key (api key name) name of
        Inr None \<Rightarrow>
          (case openfda_keys api name keys of (evs, r) \<Rightarrow> (OpenFdaGet key name # evs, r))
      | r \<Rightarrow> ([OpenFdaGet key name], r))"

definition not_found_record :: "string \<Rightarrow> drug_record" where
  "not_found_record name =
     \<lparr>drug_name = name, brand = JStr ''N/A'', generic = JStr ''N/A'',
      warnings = JStr ''No data found.'', found = False\<rparr>"

text \<open>Steps 2 and 3 of \<open>get_openfda_warnings\<close>: the public label source, then the sentinel.\<close>

definition openfda_fallback :: "world \<Rightarrow> string \<Rightarrow> event list \<times> drug_record" where
  "openfda_fallback w name =
     (case openfda_keys (openfda w) name [''brand_name'', ''generic_name''] of
        (evs, Inr (Some r)) \<Rightarrow> (evs, r)
      | (evs, _) \<Rightarrow> (evs, not_found_record name))"

definition get_openfda_warnings :: "world \<Rightarrow> string \<Rightarrow> event list \<times> drug_record" where
  "get_openfda_warnings w name =
     (case fda_mcp_attempt (fda_mcp w name) name of
        Inr (Some r) \<Rightarrow> ([FdaMcpPost name], r)
      | _ \<Rightarrow> (case openfda_fallback w name of (evs, r) \<Rightarrow> (FdaMcpPost name # evs, r)))"

section \<open>Batch verifier (\<open>get_openfda_warnings_batch\<close>)\<close>

record batch_report =
  status :: string
  count :: nat
  results :: "drug_record list"

text \<open>The \<open>for drug in medicine_list\<close> loop, with the single lookup as a parameter.\<close>

fun batch_loop ::
  "(string \<Rightarrow> event list \<times> drug_record) \<Rightarrow> string list
     \<Rightarrow> event list \<times> drug_record list \<Rightarrow> event list \<times> drug_record list" where
  "batch_loop lookup [] acc = acc"
| "batch_loop lookup (drug # rest) (evs, res) =
     (let clean_name = py_strip drug
      in if clean_name = [] then batch_loop lookup rest (evs, res)
         else (case lookup clean_name of
                 (e, r) \<Rightarrow> batch_loop lookup rest (evs @ e, res @ [r])))"

definition make_report :: "drug_record list \<Rightarrow> batch_report" where
  "make_report res =
     \<lparr>status = (if res \<noteq> [] then ''success'' else ''no_data''),
      count = length res, results = res\<rparr>"

definition get_openfda_warnings_batch :: "world \<Rightarrow> string list \<Rightarrow> event list \<times> batch_report" where
  "get_openfda_warnings_batch w medicine_list =
     (case batch_loop (get_openfda_warnings w) medicine_list ([], []) of
        (evs, res) \<Rightarrow> (evs, make_report res))"

section \<open>FDA tool server (\<open>fda_server_logic\<close>, \<open>mcp_server_fda\<close>)\<close>

definition call_openfda_api ::
  "(string \<Rightarrow> string \<Rightarrow> http_result) \<Rightarrow> string \<Rightarrow> event list \<times> drug_record" where
  "call_openfda_api api name =
     (case openfda_keys api name [''brand_name'', ''generic_name''] of
        (evs, Inr (Some r)) \<Rightarrow> (evs, r)
      | (evs, _) \<Rightarrow> (evs, not_found_record name))"


text \<open>
  The pydantic models \<open>FdaSingleDrugOutput\<close> and \<open>FdaBatchOutput\<close>: their text fields
  accept a string only, anything else is a validation error.
\<close>

record fda_single_output =
  out_drug_name :: string
  out_brand :: string
  out_generic :: string
  out_warnings :: string
  out_found :: bool


fun as_str :: "json \<Rightarrow> py_exn + string" where
  "as_str (JStr s) = Inr s"
| "as_str _ = Inl ValidationError"

definition single_output :: "string \<Rightarrow> drug_record \<Rightarrow> py_exn + fda_single_output" where
  "single_output name r =
     bind_exn (as_str (brand r)) (\<lambda>b.
     bind_exn (as_str (generic r)) (\<lambda>g.
     bind_exn (as_str (warnings r)) (\<lambda>wn.
       Inr \<lparr>out_drug_name = name, out_brand = b, out_generic = g, out_warnings = wn,
            out_found = found r\<rparr>)))"

definition check_drug_safety ::
  "(string \<Rightarrow> string \<Rightarrow> http_result) \<Rightarrow> string \<Rightarrow> event list \<times> (py_exn + fda_single_output)" where
  "check_drug_safety api name =
     (if name = [] \<or> py_strip name = []
      then ([], Inr \<lparr>out_drug_name = ''N/A'', out_brand = ''N/A'', out_generic = ''N/A'',
                     out_warnings = ''Invalid or empty drug name provided.'',
                     out_found = False\<rparr>)
      else (case call_openfda_api api name of
              (evs, r) \<Rightarrow> (evs, single_output name r)))"



text \<open>
  The \<open>check_drug_safety\<close> branch of \<open>invoke_tool\<close> for a string argument: the model
  dumped under \<open>result\<close> with status 200, or status 500 when the tool raised (the
  text of the error detail is not modelled).
\<close>

definition model_dump :: "fda_single_output \<Rightarrow> json" where
  "model_dump x =
     JDict [(''drug_name'', JStr (out_drug_name x)), (''brand'', JStr (out_brand x)),
            (''generic'', JStr (out_generic x)), (''warnings'', JStr (out_warnings x)),
            (''found'', JBool (out_found x))]"

definition invoke_check_drug_safety ::
  "(string \<Rightarrow> string \<Rightarrow> http_result) \<Rightarrow> string \<Rightarrow> http_result" where
  "invoke_check_drug_safety api name =
     (case snd (check_drug_safety api name) of
        Inr x \<Rightarrow> Response 200 (Some (JDict [(''success'', JBool True), (''result'', model_dump x)]))
      | Inl e \<Rightarrow> Response 500 (Some (JDict [(''detail'', JStr [])])))"

section \<open>Knowledge-base index: build, load, cache\<close>

record kb_data =
  index :: "rat list list"
  passages :: "string list"

text \<open>
  The snapshot file \<open>kb_index.pkl\<close>: missing, unreadable by \<open>pickle.load\<close>, or holding
  an index with its passages.
\<close>

datatype pickle_state = Absent | Corrupt | Pickled kb_data

text \<open>
  The module-level cache \<open>kb_index_data\<close> and the two files the module reads and
  writes; the guideline document is its list of page texts, \<open>None\<close> when the file is
  missing.
\<close>

record sys =
  kb_index_data :: "kb_data option"
  pickle_file :: pickle_state
  stg_pdf :: "string list option"

definition STG_PDF :: string where
  "STG_PDF = ''standard-treatment-guidelines.pdf''"

definition KB_INDEX_PICKLE :: string where
  "KB_INDEX_PICKLE = ''kb_index.pkl''"

text \<open>\<open>re.sub(r"\n{2,}", "\n", text)\<close>.\<close>

fun collapse_newlines :: "string \<Rightarrow> string" where
  "collapse_newlines (a # b # cs) =
     (if a = CHR 0x0A \<and> b = CHR 0x0A then collapse_newlines (b # cs)
      else a # collapse_newlines (b # cs))"
| "collapse_newlines cs = cs"

definition extract_text_from_pdf :: "sys \<Rightarrow> event list \<times> (py_exn + string)" where
  "extract_text_from_pdf s =
     (case stg_pdf s of
        None \<Rightarrow> ([PathExists STG_PDF], Inl FileNotFoundError)
      | Some pages \<Rightarrow> ([PathExists STG_PDF, FileRead STG_PDF], Inr (py_join [CHR 0x0A] pages)))"

text \<open>
  \<open>build_kb_index\<close>. With no passage at all the encoder returns an array of one
  dimension and \<open>embeddings.shape[1]\<close> raises. \<open>None\<close> is a chunker that never returns.
\<close>

definition build_kb_index ::
  "world \<Rightarrow> sys \<Rightarrow> (event list \<times> sys \<times> (py_exn + kb_data)) option" where
  "build_kb_index w s =
     (case stg_pdf s of
        None \<Rightarrow> Some ([PathExists STG_PDF], s, Inl FileNotFoundError)
      | Some pages \<Rightarrow>
          (case extract_text_from_pdf s of
             (evs, Inl e) \<Rightarrow> Some (PathExists STG_PDF # evs, s, Inl e)
           | (evs, Inr text) \<Rightarrow>
               (case chunk_text (collapse_newlines text) 300 50 of
                  None \<Rightarrow> None
                | Some ps \<Rightarrow>
                    if ps = [] then Some (PathExists STG_PDF # evs, s, Inl IndexError)
                    else (let d = \<lparr>index = map (embed w) ps, passages = ps\<rparr>
                          in Some (PathExists STG_PDF # evs @ [FileWrite KB_INDEX_PICKLE],
                                   s\<lparr>pickle_file := Pickled d\<rparr>, Inr d)))))"

definition load_kb_index :: "sys \<Rightarrow> event list \<times> (py_exn + kb_data option)" where
  "load_kb_index s =
     (case pickle_file s of
        Absent \<Rightarrow> ([PathExists KB_INDEX_PICKLE], Inr None)
      | Corrupt \<Rightarrow> ([PathExists KB_INDEX_PICKLE, FileRead KB_INDEX_PICKLE], Inl UnpicklingError)
      | Pickled d \<Rightarrow> ([PathExists KB_INDEX_PICKLE, FileRead KB_INDEX_PICKLE], Inr (Some d)))"

definition ensure_kb_index ::
  "world \<Rightarrow> sys \<Rightarrow> (event list \<times> sys \<times> (py_exn + kb_data option)) option" where
  "ensure_kb_index w s =
     (case kb_index_data s of
        Some d \<Rightarrow> Some ([], s, Inr (Some d))
      | None \<Rightarrow>
          (case load_kb_index s of
             (evs, Inl e) \<Rightarrow> Some (evs, s, Inl e)
           | (evs, Inr (Some d)) \<Rightarrow> Some (evs, s\<lparr>kb_index_data := Some d\<rparr>, Inr (Some d))
           | (evs, Inr None) \<Rightarrow>
               (case stg_pdf s of
                  None \<Rightarrow> Some (evs @ [PathExists STG_PDF], s, Inr None)
                | Some pages \<Rightarrow>
                    (case build_kb_index w s of
                       None \<Rightarrow> None
                     | Some (evs2, s2, Inl e) \<Rightarrow>
                         Some (evs @ PathExists STG_PDF # evs2, s2, Inl e)
                     | Some (evs2, s2, Inr d) \<Rightarrow>
                         Some (evs @ PathExists STG_PDF # evs2,
                               s2\<lparr>kb_index_data := Some d\<rparr>, Inr (Some d))))))"

section \<open>Semantic retriever (\<open>rag_lookup_kb\<close>)\<close>

text \<open>
  Modelled from the spec: the exhaustive L2 index is the FAISS library's
  \<open>IndexFlatL2\<close>, which is not part of the repository. Its \<open>search\<close> computes the
  (squared) Euclidean distance of the query to every stored vector and returns, for the
  \<open>k\<close> nearest, the distances in ascending order and the positions of the vectors,
  equal distances in stored order; when fewer than \<open>k\<close> vectors are stored the
  positions are padded with \<open>-1\<close> and the distances with the largest float.
\<close>

definition l2_distance :: "rat list \<Rightarrow> rat list \<Rightarrow> rat" where
  "l2_distance q v = sum_list (map (\<lambda>(x, y). (x - y)\<^sup>2) (zip q v))"

definition FLT_MAX :: rat where
  "FLT_MAX = 340282346638528859811704183484516925440"

definition ranking :: "rat list list \<Rightarrow> rat list \<Rightarrow> nat list" where
  "ranking vecs q = sort_key (\<lambda>i. l2_distance q (vecs ! i)) [0..<length vecs]"

definition index_search :: "rat list list \<Rightarrow> rat list \<Rightarrow> nat \<Rightarrow> rat list \<times> int list" where
  "index_search vecs q k =
     (let ranked = take k (ranking vecs q); pad = k - length ranked
      in (map (\<lambda>i. l2_distance q (vecs ! i)) ranked @ replicate pad FLT_MAX,
          map int ranked @ replicate pad (- 1)))"

record hit =
  passage :: string
  score :: rat

text \<open>\<open>xs.index(x)\<close> and \<open>xs[p]\<close> for \<open>p \<ge> 0\<close>.\<close>

fun list_index :: "'a list \<Rightarrow> 'a \<Rightarrow> py_exn + nat" where
  "list_index [] x = Inl ValueError"
| "list_index (y # ys) x =
     (if y = x then Inr 0 else bind_exn (list_index ys x) (\<lambda>p. Inr (Suc p)))"

definition py_nth :: "'a list \<Rightarrow> nat \<Rightarrow> py_exn + 'a" where
  "py_nth xs p = (if p < length xs then Inr (xs ! p) else Inl IndexError)"

text \<open>
  The \<open>for idx in I[0]\<close> loop: \<open>ds\<close> and \<open>ids\<close> are the rows \<open>D[0]\<close> and \<open>I[0]\<close>,
  the last argument is the part of \<open>I[0]\<close> still to visit.
\<close>

fun rag_hits :: "string list \<Rightarrow> rat list \<Rightarrow> int list \<Rightarrow> int list \<Rightarrow> py_exn + hit list" where
  "rag_hits ps ds ids [] = Inr []"
| "rag_hits ps ds ids (idx # rest) =
     (if 0 \<le> idx \<and> idx < int (length ps)
      then bind_exn (list_index ids idx) (\<lambda>p.
           bind_exn (py_nth ds p) (\<lambda>d.
           bind_exn (rag_hits ps ds ids rest) (\<lambda>hs.
             Inr (\<lparr>passage = ps ! nat idx, score = d\<rparr> # hs))))
      else rag_hits ps ds ids rest)"

definition rag_lookup_kb ::
  "world \<Rightarrow> sys \<Rightarrow> string \<Rightarrow> nat \<Rightarrow> (event list \<times> sys \<times> (py_exn + hit list)) option" where
  "rag_lookup_kb w s query top_k =
     (case ensure_kb_index w s of
        None \<Rightarrow> None
      | Some (evs, s', Inl e) \<Rightarrow> Some (RagLookup query top_k # evs, s', Inl e)
      | Some (evs, s', Inr None) \<Rightarrow> Some (RagLookup query top_k # evs, s', Inr [])
      | Some (evs, s', Inr (Some kb_data)) \<Rightarrow>
          (case index_search (index kb_data) (embed w query) top_k of
             (ds, ids) \<Rightarrow>
               Some (RagLookup query top_k # evs, s', rag_hits (passages kb_data) ds ids ids)))"

section \<open>Guideline agent (\<open>kb_agent\<close>), up to the cleaned passages\<close>

text \<open>\<open>_fetch_kb_via_mcp\<close>; Python's \<open>None\<close> is \<open>JNull\<close>.\<close>

definition fetch_kb_via_mcp :: "http_result \<Rightarrow> json" where
  "fetch_kb_via_mcp resp =
     (case resp of
        NoResponse \<Rightarrow> JNull
      | Response status_code body \<Rightarrow>
          if status_code = 200
          then (case body of
                  None \<Rightarrow> JNull
                | Some j \<Rightarrow>
                    (case py_get j ''result'' (JDict []) of
                       Inl e \<Rightarrow> JNull
                     | Inr data \<Rightarrow>
                         (case data of
                            JDict kvs \<Rightarrow>
                              (case map_of kvs ''guideline_snippets'' of
                                 Some v \<Rightarrow> v
                               | None \<Rightarrow> JNull)
                          | _ \<Rightarrow> JNull)))
          else JNull)"

text \<open>
  Steps 1 and 2 of \<open>kb_agent\<close>: the hits it goes on with, or the early return of the
  "no guideline passages" message.
\<close>

datatype kb_hits = NoGuidelines | Hits json

definition local_passages :: "hit list \<Rightarrow> json" where
  "local_passages local_hits =
     JList (map (\<lambda>h. JStr (py_strip (passage h))) (filter (\<lambda>h. passage h \<noteq> []) local_hits))"

definition kb_agent_hits ::
  "world \<Rightarrow> sys \<Rightarrow> string \<Rightarrow> nat \<Rightarrow> (event list \<times> sys \<times> (py_exn + kb_hits)) option" where
  "kb_agent_hits w s query_text top_k =
     (let hits = fetch_kb_via_mcp (kb_mcp w query_text)
      in if py_truthy hits then Some ([KbMcpPost query_text], s, Inr (Hits hits))
         else (case rag_lookup_kb w s query_text top_k of
                 None \<Rightarrow> None
               | Some (evs, s', Inl e) \<Rightarrow> Some (KbMcpPost query_text # evs, s', Inl e)
               | Some (evs, s', Inr local_hits) \<Rightarrow>
                   if local_hits = []
                   then Some (KbMcpPost query_text # evs, s', Inr NoGuidelines)
                   else Some (KbMcpPost query_text # evs, s',
                              Inr (Hits (local_passages local_hits)))))"

text \<open>\<open>s.rsplit(" ", 1)[0]\<close>: what precedes the last space, or all of \<open>s\<close> without one.\<close>

definition rsplit_head :: "string \<Rightarrow> string" where
  "rsplit_head s =
     (if CHR '' '' \<in> set s then rev (tl (dropWhile (\<lambda>c. c \<noteq> CHR '' '') (rev s))) else s)"

text \<open>Step 3 of \<open>kb_agent\<close> on one passage string.\<close>

definition clean_passage :: "string \<Rightarrow> string" where
  "clean_passage p =
     py_strip (if length p > 1000 then rsplit_head (take 950 p) @ ''...'' else p)"

text \<open>
  Step 3 on one element of the hits when it is not known to be a string: \<open>len\<close> fails on
  \<open>None\<close>, booleans and numbers, a list has neither \<open>rsplit\<close> nor \<open>strip\<close>, a dict
  cannot be sliced and has no \<open>strip\<close>.
\<close>

fun clean_item :: "json \<Rightarrow> py_exn + string" where
  "clean_item (JStr p) = Inr (clean_passage p)"
| "clean_item (JList xs) = Inl AttributeError"
| "clean_item (JDict kvs) = (if length kvs > 1000 then Inl TypeError else Inl AttributeError)"
| "clean_item _ = Inl TypeError"

fun clean_items :: "json list \<Rightarrow> py_exn + string list" where
  "clean_items [] = Inr []"
| "clean_items (x # xs) =
     bind_exn (clean_item x) (\<lambda>p. bind_exn (clean_items xs) (\<lambda>ps. Inr (p # ps)))"

text \<open>
  Step 3, \<open>for passage in hits\<close>: a list gives its elements, a string its characters, a
  dict its keys; nothing else can be iterated.
\<close>

fun raw_passages :: "json \<Rightarrow> py_exn + string list" where
  "raw_passages (JList xs) = clean_items xs"
| "raw_passages (JStr s) = Inr (map (\<lambda>c. clean_passage [c]) s)"
| "raw_passages (JDict kvs) = Inr (map (\<lambda>kv. clean_passage (fst kv)) kvs)"
| "raw_passages _ = Inl TypeError"

section \<open>Well-formed primary answers and two example deployments\<close>

text \<open>
  A primary answer of the FDA tool server with status 200 and a dict result body: the
  body is a JSON object whose \<open>result\<close> is an object (or is missing, which
  \<open>get("result", {})\<close> reads as the empty object).
\<close>

fun primary_ok :: "http_result \<Rightarrow> bool" where
  "primary_ok (Response status_code (Some (JDict body))) =
     (status_code = 200 \<and>
      (case dict_get body ''result'' (JDict []) of JDict res \<Rightarrow> True | _ \<Rightarrow> False))"
| "primary_ok _ = False"

text \<open>
  A primary answer of the guideline tool server that \<open>_fetch_kb_via_mcp\<close> accepts:
  status 200, an object whose \<open>result\<close> is an object with the key
  \<open>guideline_snippets\<close>.
\<close>

fun kb_primary_ok :: "http_result \<Rightarrow> bool" where
  "kb_primary_ok (Response status_code (Some (JDict body))) =
     (status_code = 200 \<and>
      (case dict_get body ''result'' (JDict []) of
         JDict res \<Rightarrow> map_of res ''guideline_snippets'' \<noteq> None
       | _ \<Rightarrow> False))"
| "kb_primary_ok _ = False"

text \<open>A public label source that knows aspirin and answers 404 for every other name.\<close>

definition label_source :: "string \<Rightarrow> string \<Rightarrow> http_result" where
  "label_source key name =
     (if name = ''aspirin''
      then Response 200 (Some (JDict [(''results'', JList [JDict
             [(''openfda'', JDict [(''brand_name'', JList [JStr ''Bayer Aspirin'']),
                                   (''generic_name'', JList [JStr ''ASPIRIN''])]),
              (''warnings'', JList [JStr ''Reye syndrome warning'' ])]])]))
      else Response 404 (Some (JDict [(''error'', JDict [(''code'', JStr ''NOT_FOUND'')])])))"

text \<open>
  The repository deployed as written: the FDA tool server of \<open>mcp_server_fda\<close> runs
  and answers \<open>check_drug_safety\<close> from the same label source; no guideline server.
\<close>

definition deployed_world :: world where
  "deployed_world =
     \<lparr>fda_mcp = invoke_check_drug_safety label_source, openfda = label_source,
      kb_mcp = (\<lambda>q. NoResponse), embed = (\<lambda>q. [1])\<rparr>"

text \<open>The same with no tool server running; the embedder maps every query to \<open>[1]\<close>.\<close>

definition offline_world :: world where
  "offline_world =
     \<lparr>fda_mcp = (\<lambda>n. NoResponse), openfda = label_source,
      kb_mcp = (\<lambda>q. NoResponse), embed = (\<lambda>q. [1])\<rparr>"

text \<open>
  A guideline tool server that answers every query with status 200 and the given
  snippets, and an embedder that maps every query to the vector \<open>[1]\<close>.
\<close>

definition kb_world :: "json \<Rightarrow> world" where
  "kb_world snippets =
     \<lparr>fda_mcp = (\<lambda>n. NoResponse), openfda = label_source,
      kb_mcp = (\<lambda>q. Response 200 (Some (JDict [(''success'', JBool True),
                 (''result'', JDict [(''guideline_snippets'', snippets),
                                     (''query_used'', JStr q)])]))),
      embed = (\<lambda>q. [1])\<rparr>"

text \<open>
  An index of three passages; the first two are at the same distance from \<open>[1]\<close>,
  the third is nearer.
\<close>

definition example_kb :: kb_data where
  "example_kb = \<lparr>index = [[0], [2], [1]], passages = [''rest'', ''fluids'', ''paracetamol'']\<rparr>"

text \<open>A process with the index cached, one with only the snapshot on disk, one with nothing.\<close>

definition loaded_sys :: sys where
  "loaded_sys = \<lparr>kb_index_data = Some example_kb, pickle_file = Pickled example_kb,
                  stg_pdf = None\<rparr>"

definition snapshot_sys :: sys where
  "snapshot_sys = \<lparr>kb_index_data = None, pickle_file = Pickled example_kb, stg_pdf = None\<rparr>"

definition bare_sys :: sys where
  "bare_sys = \<lparr>kb_index_data = None, pickle_file = Absent, stg_pdf = None\<rparr>"

text \<open>A process with nothing cached and a snapshot file that \<open>pickle.load\<close> cannot read.\<close>

definition corrupt_sys :: sys where
  "corrupt_sys = \<lparr>kb_index_data = None, pickle_file = Corrupt, stg_pdf = None\<rparr>"

text \<open>
  An answer of the public label source that holds no match: any status other than 200,
  or status 200 with a JSON object whose \<open>results\<close> are missing or empty.
\<close>

fun no_match :: "http_result \<Rightarrow> bool" where
  "no_match NoResponse = False"
| "no_match (Response status_code body) =
     (status_code \<noteq> 200 \<or>
      (case body of
         Some (JDict kvs) \<Rightarrow> \<not> py_truthy (dict_get kvs ''results'' (JList []))
       | _ \<Rightarrow> False))"

text \<open>An FDA tool server that answers every name with a warning text of 1100 characters.\<close>

definition long_warning_world :: world where
  "long_warning_world =
     \<lparr>fda_mcp = (\<lambda>n. Response 200 (Some (JDict [(''success'', JBool True),
                  (''result'', JDict [(''drug_name'', JStr n), (''brand'', JStr ''B''),
                     (''generic'', JStr ''G''),
                     (''warnings'', JStr (replicate 1100 CHR ''a'')),
                     (''found'', JBool True)])]))),
      openfda = label_source, kb_mcp = (\<lambda>q. NoResponse), embed = (\<lambda>q. [1])\<rparr>"

text \<open>
  A public label source that knows ibuprofen under its generic name only, with a warning
  text of 1100 characters, and a deployment with no tool server that uses it.
\<close>

definition generic_source :: "string \<Rightarrow> string \<Rightarrow> http_result" where
  "generic_source key name =
     (if key = ''generic_name'' \<and> name = ''ibuprofen''
      then Response 200 (Some (JDict [(''results'', JList [JDict
             [(''openfda'', JDict [(''brand_name'', JList [JStr ''Advil'']),
                                   (''generic_name'', JList [JStr ''IBUPROFEN''])]),
              (''warnings'', JList [JStr (replicate 1100 CHR ''a'')])]])]))
      else Response 404 (Some (JDict [(''error'', JDict [(''code'', JStr ''NOT_FOUND'')])])))"

definition generic_world :: world where
  "generic_world =
     \<lparr>fda_mcp = (\<lambda>n. NoResponse), openfda = generic_source,
      kb_mcp = (\<lambda>q. NoResponse), embed = (\<lambda>q. [1])\<rparr>"

text \<open>A deployment in which no server answers at all.\<close>

definition dead_world :: world where
  "dead_world =
     \<lparr>fda_mcp = (\<lambda>n. NoResponse), openfda = (\<lambda>key n. NoResponse),
      kb_mcp = (\<lambda>q. NoResponse), embed = (\<lambda>q. [1])\<rparr>"

section \<open>Properties of the chunker\<close>

lemma split_aux_token:
  "\<forall>c\<in>set t. \<not> py_isspace c \<Longrightarrow> py_split_aux cur (t @ rest) = py_split_aux (cur @ t) rest"
  by (induction t arbitrary: cur) simp_all

lemma split_aux_tokens_clean:
  "(\<forall>c\<in>set cur. \<not> py_isspace c) \<Longrightarrow> t \<in> set (py_split_aux cur s) \<Longrightarrow> clean_token t"
proof (induction s arbitrary: cur)
  case Nil
  then show ?case by (simp add: clean_token_def split: if_splits)
next
  case (Cons c cs)
  show ?case
  proof (cases "py_isspace c")
    case True
    then have "t = cur \<and> cur \<noteq> [] \<or> t \<in> set (py_split_aux [] cs)"
      using Cons.prems(2) by (simp split: if_splits)
    then show ?thesis
    proof
      assume "t = cur \<and> cur \<noteq> []"
      then show ?thesis using Cons.prems(1) by (simp add: clean_token_def)
    next
      assume "t \<in> set (py_split_aux [] cs)"
      then show ?thesis using Cons.IH [of "[]"] by simp
    qed
  next
    case False
    then have "t \<in> set (py_split_aux (cur @ [c]) cs)"
      using Cons.prems(2) by simp
    moreover have "\<forall>d\<in>set (cur @ [c]). \<not> py_isspace d"
      using False Cons.prems(1) by simp
    ultimately show ?thesis using Cons.IH [of "cur @ [c]"] by blast
  qed
qed

lemma split_tokens_clean: "t \<in> set (py_split s) \<Longrightarrow> clean_token t"
  using split_aux_tokens_clean [of "[]" t s] by (simp add: py_split_def)

lemma space_isspace: "py_isspace CHR '' ''"
  by (simp add: py_isspace_def)

lemma split_join:
  "\<forall>t\<in>set ts. clean_token t \<Longrightarrow> py_split (py_join '' '' ts) = ts"
proof (induction ts rule: induct_list012)
  case 1
  then show ?case by (simp add: py_split_def)
next
  case (2 x)
  then show ?case
    using split_aux_token [of x "[]" "[]"] by (simp add: py_split_def clean_token_def)
next
  case (3 x y ys)
  then have "py_split (py_join '' '' (y # ys)) = y # ys" by simp
  moreover have "py_split_aux [] (x @ '' '' @ py_join '' '' (y # ys))
      = x # py_split_aux [] (py_join '' '' (y # ys))"
    using 3(3) split_aux_token [of x "[]" "'' '' @ py_join '' '' (y # ys)"]
    by (simp add: space_isspace clean_token_def)
  ultimately show ?case by (simp add: py_split_def)
qed

lemma chunk_loop_starts:
  assumes "0 \<le> ov" "ov < w"
  shows "chunk_loop tokens w ov (int i) acc =
     Some (acc @ map (\<lambda>j. py_join '' '' (take (nat w) (drop j tokens)))
                 (starts (length tokens) (nat (w - ov)) i))"
proof (induction "length tokens" "nat (w - ov)" i arbitrary: acc rule: starts.induct)
  case (1 i)
  show ?case
  proof (cases "i < length tokens")
    case True
    have sl: "py_slice tokens (int i) (int i + w) = take (nat w) (drop i tokens)"
      using assms True by (simp add: py_slice_def py_clip_def min_def nat_add_distrib)
    have step: "int i + (w - ov) = int (i + nat (w - ov))"
      using assms by simp
    have pos: "0 < nat (w - ov)" using assms by simp
    have st: "starts (length tokens) (nat (w - ov)) i
        = i # starts (length tokens) (nat (w - ov)) (i + nat (w - ov))"
      using True pos by (subst starts.simps) simp
    have "chunk_loop tokens w ov (int i) acc
        = chunk_loop tokens w ov (int (i + nat (w - ov)))
            (acc @ [py_join '' '' (take (nat w) (drop i tokens))])"
      using True by (subst chunk_loop.simps) (simp only: sl step if_True of_nat_less_iff)
    also have "\<dots> = Some ((acc @ [py_join '' '' (take (nat w) (drop i tokens))])
          @ map (\<lambda>j. py_join '' '' (take (nat w) (drop j tokens)))
              (starts (length tokens) (nat (w - ov)) (i + nat (w - ov))))"
      using 1 [OF conjI [OF True pos]] .
    finally show ?thesis by (simp add: st)
  next
    case False
    have "starts (length tokens) (nat (w - ov)) i = []"
      using False by (subst starts.simps) simp
    then show ?thesis
      using False by (subst chunk_loop.simps) simp
  qed
qed

lemma length_starts:
  "0 < s \<Longrightarrow> length (starts n s i) = (n - i + s - 1) div s"
proof (induction n s i rule: starts.induct)
  case (1 n s i)
  show ?case
  proof (cases "i < n")
    case True
    have "(n - i + s - 1) div s = Suc ((n - (i + s) + s - 1) div s)"
    proof (cases "i + s \<le> n")
      case True
      define a where "a = n - (i + s) + s - 1"
      have "n - i + s - 1 = a + s" using True \<open>0 < s\<close> by (simp add: a_def)
      moreover have "(a + s) div s = Suc (a div s)" using \<open>0 < s\<close> by simp
      ultimately show ?thesis by (simp only: a_def)
    next
      case False
      define b where "b = n - i - 1"
      have a: "n - (i + s) + s - 1 = s - 1" using False by simp
      have b: "n - i + s - 1 = b + s" using \<open>i < n\<close> by (simp add: b_def)
      have c: "b < s" using False \<open>i < n\<close> unfolding b_def by arith
      have "(b + s) div s = Suc 0" using \<open>0 < s\<close> c by simp
      moreover have "(s - 1) div s = 0" using \<open>0 < s\<close> by simp
      ultimately show ?thesis by (simp only: a b)
    qed
    moreover have "starts n s i = i # starts n s (i + s)"
      using True 1(2) by (subst starts.simps) simp
    ultimately show ?thesis
      using True 1 by simp
  next
    case False
    then have "starts n s i = []" by (subst starts.simps) simp
    then show ?thesis using False 1(2) by simp
  qed
qed

lemma concat_starts:
  "0 < s \<Longrightarrow> n = length tokens \<Longrightarrow>
   concat (map (\<lambda>j. take s (drop (j + ov) tokens)) (starts n s i)) = drop (i + ov) tokens"
proof (induction n s i rule: starts.induct)
  case (1 n s i)
  show ?case
  proof (cases "i < n")
    case True
    have "take s (drop (i + ov) tokens) @ drop (i + s + ov) tokens = drop (i + ov) tokens"
      by (metis add.assoc add.commute append_take_drop_id drop_drop)
    moreover have "starts n s i = i # starts n s (i + s)"
      using True 1(2) by (subst starts.simps) simp
    ultimately show ?thesis using True 1 by simp
  next
    case False
    then have "starts n s i = []" by (subst starts.simps) simp
    then show ?thesis using False 1(3) by simp
  qed
qed

lemma chunk_loop_returns_only_past_end:
  assumes "chunk_loop tokens w ov i acc = Some r"
  shows "\<not> (i < int (length tokens) \<and> w \<le> ov)"
proof (rule chunk_loop.raw_induct
    [where P = "\<lambda>tokens w ov i acc r. \<not> (i < int (length tokens) \<and> w \<le> ov)", OF _ assms])
  fix loop :: "string list \<Rightarrow> int \<Rightarrow> int \<Rightarrow> int \<Rightarrow> string list \<Rightarrow> string list option"
  fix tokens w ov i acc r
  assume IH: "\<And>tokens w ov i acc r. loop tokens w ov i acc = Some r \<Longrightarrow>
      \<not> (i < int (length tokens) \<and> w \<le> ov)"
  assume body: "(if i < int (length tokens)
      then loop tokens w ov (i + (w - ov))
             (acc @ [py_join '' '' (py_slice tokens i (i + w))])
      else Some acc) = Some r"
  show "\<not> (i < int (length tokens) \<and> w \<le> ov)"
  proof
    assume a: "i < int (length tokens) \<and> w \<le> ov"
    then have "loop tokens w ov (i + (w - ov))
        (acc @ [py_join '' '' (py_slice tokens i (i + w))]) = Some r"
      using body by simp
    then have "\<not> (i + (w - ov) < int (length tokens) \<and> w \<le> ov)"
      by (rule IH)
    then show False using a by simp
  qed
qed

lemma ceiling_nat_div:
  assumes "0 < s"
  shows "\<lceil>rat_of_nat n / rat_of_nat s\<rceil> = int ((n + s - 1) div s)"
proof (rule ceiling_unique)
  define z where "z = (n + s - 1) div s"
  define r where "r = (n + s - 1) mod s"
  have eq: "n + s - 1 = z * s + r" by (simp add: z_def r_def)
  have rs: "r < s" using assms by (simp add: r_def)
  have up: "n \<le> z * s" using eq rs by arith
  have lo: "z * s < n + s" using eq assms by arith
  have spos: "0 < rat_of_nat s" using assms by simp
  have "rat_of_nat n \<le> rat_of_nat (z * s)" using up by (simp only: of_nat_le_iff)
  then show "rat_of_nat n / rat_of_nat s \<le> of_int (int ((n + s - 1) div s))"
    using spos by (simp add: z_def divide_le_eq)
  have "rat_of_nat (z * s) < rat_of_nat (n + s)" using lo by (simp only: of_nat_less_iff)
  then show "of_int (int ((n + s - 1) div s)) - 1 < rat_of_nat n / rat_of_nat s"
    using spos by (simp add: z_def less_divide_eq algebra_simps)
qed

text \<open>
  C3 (amended). For a text with at least one token, a window \<open>w\<close> and an overlap
  \<open>ov\<close> with \<open>0 \<le> ov < w\<close>, \<open>chunk_text\<close> returns, and it returns exactly
  \<open>ceil(n / (w - ov))\<close> chunks, \<open>n\<close> the number of tokens; the tokens of the first
  chunk followed by the tokens of every later chunk without its first \<open>ov\<close> tokens are
  the tokens of the text.
\<close>

theorem chunk_text_count_and_reconstruction:
  assumes "0 \<le> ov" and "ov < w" and "py_split text \<noteq> []"
  shows "\<exists>chunks. chunk_text text w ov = Some chunks
      \<and> int (length chunks) = \<lceil>rat_of_nat (length (py_split text)) / rat_of_int (w - ov)\<rceil>
      \<and> py_split (hd chunks) @ concat (map (\<lambda>c. drop (nat ov) (py_split c)) (tl chunks))
          = py_split text"
proof -
  define tokens where "tokens = py_split text"
  define n where "n = length tokens"
  define s where "s = nat (w - ov)"
  define f where "f = (\<lambda>j. py_join '' '' (take (nat w) (drop j tokens)))"
  define chunks where "chunks = map f (starts n s 0)"
  have spos: "0 < s" using assms by (simp add: s_def)
  have npos: "0 < n" using assms(3) by (simp add: n_def tokens_def)
  have run: "chunk_text text w ov = Some chunks"
    using chunk_loop_starts [OF assms(1,2), of tokens 0 "[]"]
    by (simp add: chunk_text_def tokens_def chunks_def f_def n_def s_def)
  have "rat_of_int (w - ov) = rat_of_nat s" using assms by (simp add: s_def)
  then have count: "int (length chunks) = \<lceil>rat_of_nat n / rat_of_int (w - ov)\<rceil>"
    using length_starts [OF spos, of n 0] ceiling_nat_div [OF spos, of n]
    by (simp add: chunks_def)
  have clean: "\<forall>t\<in>set (take (nat w) (drop j tokens)). clean_token t" for j
    using split_tokens_clean [of _ "text"]
    by (auto simp: tokens_def dest!: in_set_takeD in_set_dropD)
  have toks: "py_split (f j) = take (nat w) (drop j tokens)" for j
    unfolding f_def by (rule split_join [OF clean])
  have unfold: "starts n s 0 = 0 # starts n s s"
    using spos npos by (subst starts.simps) simp
  have ws: "nat w = s + nat ov" using assms by (simp add: s_def)
  have piece: "drop (nat ov) (py_split (f j)) = take s (drop (j + nat ov) tokens)" for j
    by (simp add: toks drop_take ws add.commute)
  have "concat (map (\<lambda>c. drop (nat ov) (py_split c)) (map f (starts n s s)))
      = concat (map (\<lambda>j. take s (drop (j + nat ov) tokens)) (starts n s s))"
    by (simp add: comp_def piece)
  also have "\<dots> = drop (s + nat ov) tokens"
    using concat_starts [OF spos, of n tokens "nat ov" s] by (simp add: n_def)
  finally have rest: "concat (map (\<lambda>c. drop (nat ov) (py_split c)) (tl chunks))
      = drop (nat w) tokens"
    by (simp add: chunks_def unfold ws)
  have "py_split (hd chunks) = take (nat w) tokens"
    using toks [of 0] by (simp add: chunks_def unfold)
  then have recon: "py_split (hd chunks)
      @ concat (map (\<lambda>c. drop (nat ov) (py_split c)) (tl chunks)) = tokens"
    using rest by simp
  show ?thesis
    using run count recon by (auto simp: tokens_def n_def)
qed

text \<open>The theorem at the text \<open>a  b c\<close>, window 2 and overlap 1.\<close>

theorem chunk_text_count_and_reconstruction_witness:
  "(0::int) \<le> 1 \<and> (1::int) < 2 \<and> py_split ''a  b c'' \<noteq> []
   \<and> (\<exists>chunks. chunk_text ''a  b c'' 2 1 = Some chunks
      \<and> int (length chunks) = \<lceil>rat_of_nat (length (py_split ''a  b c'')) / rat_of_int (2 - 1)\<rceil>
      \<and> py_split (hd chunks) @ concat (map (\<lambda>c. drop (nat 1) (py_split c)) (tl chunks))
          = py_split ''a  b c'')"
proof -
  have h: "py_split ''a  b c'' \<noteq> []"
    by (simp add: py_split_def py_isspace_def)
  show ?thesis
    using h chunk_text_count_and_reconstruction [of 1 2 "''a  b c''"] by simp
qed

text \<open>
  The count of the specification, \<open>ceil(max(n - ov, 0) / (w - ov))\<close>, is not the
  count of the code: two tokens, window 2 and overlap 1 give two chunks, not one.
\<close>

theorem chunk_count_spec_formula_counterexample:
  "chunk_text ''a b'' 2 1 = Some [''a b'', ''b'']
   \<and> int (length [''a b'', ''b''])
       \<noteq> \<lceil>rat_of_int (max (int (length (py_split ''a b'')) - 1) 0) / rat_of_int (2 - 1)\<rceil>"
  by (simp add: chunk_text_def py_split_def py_isspace_def chunk_loop.simps
      py_slice_def py_clip_def)

text \<open>
  C4. With an overlap of at least the window size and at least one token, \<open>chunk_text\<close>
  raises nothing and never returns: the window start never moves past the end of the
  tokens.
\<close>

theorem chunk_text_never_returns:
  assumes "py_split text \<noteq> []" and "w \<le> ov"
  shows "chunk_text text w ov = None"
proof (cases "chunk_text text w ov")
  case None
  then show ?thesis .
next
  case (Some r)
  then have "\<not> (0 < int (length (py_split text)) \<and> w \<le> ov)"
    unfolding chunk_text_def by (rule chunk_loop_returns_only_past_end)
  then show ?thesis using assms by simp
qed

text \<open>The call \<open>chunk_text("a", 1, 1)\<close> never returns.\<close>

theorem chunk_text_never_returns_witness:
  "py_split ''a'' \<noteq> [] \<and> (1::int) \<le> 1 \<and> chunk_text ''a'' 1 1 = None"
proof -
  have h: "py_split ''a'' \<noteq> []"
    by (simp add: py_split_def py_isspace_def)
  show ?thesis
    using h chunk_text_never_returns [of "''a''" 1 1] by simp
qed

section \<open>Properties of the drug-safety lookup and the batch verifier\<close>

lemma batch_loop_eq:
  "batch_loop lookup names (evs, res) =
     (evs @ concat (map (\<lambda>n. fst (lookup n)) (filter (\<lambda>n. n \<noteq> []) (map py_strip names))),
      res @ map (\<lambda>n. snd (lookup n)) (filter (\<lambda>n. n \<noteq> []) (map py_strip names)))"
  by (induction names arbitrary: evs res) (simp_all add: Let_def split: prod.splits)

lemma openfda_record_fields:
  "openfda_record data n = Inr r \<Longrightarrow> drug_name r = n \<and> found r"
  by (auto simp: openfda_record_def bind_exn_def split: sum.splits)

lemma openfda_try_key_fields:
  "openfda_try_key resp n = Inr (Some r) \<Longrightarrow> drug_name r = n \<and> found r"
  by (auto simp: openfda_try_key_def bind_exn_def
      split: http_result.splits if_splits option.splits sum.splits
      dest: openfda_record_fields)

lemma openfda_keys_fields:
  "snd (openfda_keys api n keys) = Inr (Some r) \<Longrightarrow> drug_name r = n \<and> found r"
proof (induction keys)
  case Nil
  then show ?case by simp
next
  case (Cons key keys)
  show ?case
  proof (cases "openfda_try_key (api key n) n")
    case (Inl e)
    then show ?thesis using Cons.prems by simp
  next
    case (Inr x)
    show ?thesis
    proof (cases x)
      case None
      then show ?thesis using Inr Cons by (simp split: prod.splits)
    next
      case (Some r')
      then show ?thesis using Inr Cons.prems openfda_try_key_fields [of "api key n" n r'] by simp
    qed
  qed
qed

lemma fda_mcp_attempt_fields:
  "fda_mcp_attempt resp n = Inr (Some r) \<Longrightarrow> drug_name r = n \<and> found r"
  by (auto simp: fda_mcp_attempt_def bind_exn_def
      split: http_result.splits if_splits option.splits sum.splits json.splits)

lemma primary_ok_iff:
  "primary_ok resp \<longleftrightarrow> (\<exists>r. fda_mcp_attempt resp n = Inr (Some r))"
proof (cases resp)
  case NoResponse
  then show ?thesis by (simp add: fda_mcp_attempt_def)
next
  case (Response st body)
  show ?thesis
  proof (cases body)
    case None
    then show ?thesis using Response by (simp add: fda_mcp_attempt_def)
  next
    case (Some j)
    then show ?thesis using Response
      by (cases j) (auto simp: fda_mcp_attempt_def bind_exn_def split: json.splits)
  qed
qed

lemma openfda_fallback_snd:
  "snd (openfda_fallback w n) =
     (case snd (openfda_keys (openfda w) n [''brand_name'', ''generic_name'']) of
        Inr (Some r) \<Rightarrow> r
      | _ \<Rightarrow> not_found_record n)"
  unfolding openfda_fallback_def
  by (cases "openfda_keys (openfda w) n [''brand_name'', ''generic_name'']")
     (simp split: sum.splits option.splits)

lemma get_openfda_warnings_snd:
  "snd (get_openfda_warnings w n) =
     (case fda_mcp_attempt (fda_mcp w n) n of
        Inr (Some r) \<Rightarrow> r
      | _ \<Rightarrow> snd (openfda_fallback w n))"
  unfolding get_openfda_warnings_def
  by (cases "openfda_fallback w n") (simp split: sum.splits option.splits)

lemma openfda_fallback_name:
  "drug_name (snd (openfda_fallback w n)) = n"
proof (cases "snd (openfda_keys (openfda w) n [''brand_name'', ''generic_name''])")
  case (Inl e)
  then show ?thesis by (simp add: openfda_fallback_snd not_found_record_def)
next
  case (Inr x)
  show ?thesis
  proof (cases x)
    case None
    then show ?thesis using Inr by (simp add: openfda_fallback_snd not_found_record_def)
  next
    case (Some r)
    then have "drug_name r = n"
      using Inr openfda_keys_fields [of "openfda w" n "[''brand_name'', ''generic_name'']" r]
      by simp
    then show ?thesis using Inr Some by (simp add: openfda_fallback_snd)
  qed
qed

lemma get_openfda_warnings_name:
  "drug_name (snd (get_openfda_warnings w n)) = n"
proof (cases "fda_mcp_attempt (fda_mcp w n) n")
  case (Inl e)
  then show ?thesis by (simp add: get_openfda_warnings_snd openfda_fallback_name)
next
  case (Inr x)
  show ?thesis
  proof (cases x)
    case None
    then show ?thesis using Inr by (simp add: get_openfda_warnings_snd openfda_fallback_name)
  next
    case (Some r)
    then have "drug_name r = n"
      using Inr fda_mcp_attempt_fields [of "fda_mcp w n" n r] by simp
    then show ?thesis using Inr Some by (simp add: get_openfda_warnings_snd)
  qed
qed

lemma batch_results:
  "results (snd (get_openfda_warnings_batch w names)) =
     map (\<lambda>n. snd (get_openfda_warnings w n)) (filter (\<lambda>n. n \<noteq> []) (map py_strip names))"
  using batch_loop_eq [of "get_openfda_warnings w" names "[]" "[]"]
  by (simp add: get_openfda_warnings_batch_def make_report_def split: prod.splits)





lemma fallback_not_found:
  assumes "\<not> found (snd (openfda_fallback w n))"
  shows "(\<forall>r. snd (openfda_keys (openfda w) n [''brand_name'', ''generic_name'']) \<noteq> Inr (Some r))
     \<and> snd (openfda_fallback w n) = not_found_record n"
proof (cases "snd (openfda_keys (openfda w) n [''brand_name'', ''generic_name''])")
  case (Inl e)
  then show ?thesis by (simp add: openfda_fallback_snd)
next
  case (Inr x)
  show ?thesis
  proof (cases x)
    case None
    then show ?thesis using Inr by (simp add: openfda_fallback_snd)
  next
    case (Some r)
    then have "found r"
      using Inr openfda_keys_fields [of "openfda w" n "[''brand_name'', ''generic_name'']" r]
      by simp
    then show ?thesis using assms Inr Some by (simp add: openfda_fallback_snd)
  qed
qed

text \<open>
  C10. Whenever the FDA tool server answers with status 200 and a JSON object whose
  \<open>result\<close> is an object, \<open>get_openfda_warnings\<close> returns a record with
  \<open>found = True\<close>, whatever the object says under \<open>found\<close>; and a record with
  \<open>found = False\<close> is returned only when the primary answer is not of that form and
  the public label source yields no record under either key, and then it is the sentinel
  record.
\<close>

theorem primary_answer_forces_found:
  "(fda_mcp w name = Response 200 (Some (JDict body))
      \<and> dict_get body ''result'' (JDict []) = JDict res
      \<longrightarrow> found (snd (get_openfda_warnings w name)))
   \<and> (\<not> found (snd (get_openfda_warnings w name))
      \<longrightarrow> \<not> primary_ok (fda_mcp w name)
        \<and> (\<forall>r. snd (openfda_keys (openfda w) name [''brand_name'', ''generic_name''])
                 \<noteq> Inr (Some r))
        \<and> snd (get_openfda_warnings w name) = not_found_record name)"
proof (intro conjI impI)
  assume "fda_mcp w name = Response 200 (Some (JDict body))
      \<and> dict_get body ''result'' (JDict []) = JDict res"
  then show "found (snd (get_openfda_warnings w name))"
    by (simp add: get_openfda_warnings_snd fda_mcp_attempt_def bind_exn_def)
next
  assume nf: "\<not> found (snd (get_openfda_warnings w name))"
  show np: "\<not> primary_ok (fda_mcp w name)"
  proof
    assume "primary_ok (fda_mcp w name)"
    then obtain r where r: "fda_mcp_attempt (fda_mcp w name) name = Inr (Some r)"
      using primary_ok_iff [of "fda_mcp w name" name] by blast
    then have "found r" using fda_mcp_attempt_fields by blast
    then show False using nf r by (simp add: get_openfda_warnings_snd)
  qed
  have fb: "snd (get_openfda_warnings w name) = snd (openfda_fallback w name)"
  proof (cases "fda_mcp_attempt (fda_mcp w name) name")
    case (Inl e)
    then show ?thesis by (simp add: get_openfda_warnings_snd)
  next
    case (Inr x)
    then have "x = None"
      using np primary_ok_iff [of "fda_mcp w name" name] by (cases x) auto
    then show ?thesis using Inr by (simp add: get_openfda_warnings_snd)
  qed
  then have "\<not> found (snd (openfda_fallback w name))" using nf by simp
  then have both: "(\<forall>r. snd (openfda_keys (openfda w) name [''brand_name'', ''generic_name''])
                 \<noteq> Inr (Some r))
     \<and> snd (openfda_fallback w name) = not_found_record name"
    by (rule fallback_not_found)
  show "\<forall>r. snd (openfda_keys (openfda w) name [''brand_name'', ''generic_name''])
                 \<noteq> Inr (Some r)"
    using both by blast
  show "snd (get_openfda_warnings w name) = not_found_record name"
    using both fb by simp
qed

lemma deployed_unknown_answer:
  "fda_mcp deployed_world ''unknownxyz123'' =
     Response 200 (Some (JDict [(''success'', JBool True),
       (''result'', JDict [(''drug_name'', JStr ''unknownxyz123''), (''brand'', JStr ''N/A''),
          (''generic'', JStr ''N/A''), (''warnings'', JStr ''No data found.''),
          (''found'', JBool False)])]))"
  by (simp add: deployed_world_def invoke_check_drug_safety_def check_drug_safety_def
      py_strip_def py_isspace_def call_openfda_api_def label_source_def openfda_try_key_def
      not_found_record_def single_output_def bind_exn_def model_dump_def)

lemma offline_unknown_record:
  "snd (get_openfda_warnings offline_world ''unknownxyz123'') = not_found_record ''unknownxyz123''"
  by (simp add: offline_world_def get_openfda_warnings_def fda_mcp_attempt_def
      openfda_fallback_def label_source_def openfda_try_key_def)

text \<open>
  The theorem where the tool server reports \<open>found: false\<close> for an unknown drug, and
  where no tool server runs and the label source does not know the drug.
\<close>

theorem primary_answer_forces_found_witness:
  "fda_mcp deployed_world ''unknownxyz123'' =
     Response 200 (Some (JDict [(''success'', JBool True),
       (''result'', JDict [(''drug_name'', JStr ''unknownxyz123''), (''brand'', JStr ''N/A''),
          (''generic'', JStr ''N/A''), (''warnings'', JStr ''No data found.''),
          (''found'', JBool False)])]))
   \<and> found (snd (get_openfda_warnings deployed_world ''unknownxyz123''))
   \<and> \<not> found (snd (get_openfda_warnings offline_world ''unknownxyz123''))
   \<and> \<not> primary_ok (fda_mcp offline_world ''unknownxyz123'')
   \<and> snd (get_openfda_warnings offline_world ''unknownxyz123'')
       = not_found_record ''unknownxyz123''"
proof -
  let ?res = "[(''drug_name'', JStr ''unknownxyz123''), (''brand'', JStr ''N/A''),
          (''generic'', JStr ''N/A''), (''warnings'', JStr ''No data found.''),
          (''found'', JBool False)]"
  let ?body = "[(''success'', JBool True), (''result'', JDict ?res)]"
  have a: "fda_mcp deployed_world ''unknownxyz123'' = Response 200 (Some (JDict ?body))"
    by (rule deployed_unknown_answer)
  have b: "dict_get ?body ''result'' (JDict []) = JDict ?res"
    by (simp add: dict_get_def)
  have c: "found (snd (get_openfda_warnings deployed_world ''unknownxyz123''))"
    using primary_answer_forces_found [of deployed_world "''unknownxyz123''" ?body ?res] a b
    by blast
  have d: "\<not> found (snd (get_openfda_warnings offline_world ''unknownxyz123''))"
    by (simp add: offline_unknown_record not_found_record_def)
  have e: "\<not> primary_ok (fda_mcp offline_world ''unknownxyz123'')
      \<and> snd (get_openfda_warnings offline_world ''unknownxyz123'')
          = not_found_record ''unknownxyz123''"
    using primary_answer_forces_found [of offline_world "''unknownxyz123''"] d by blast
  show ?thesis using a c d e by blast
qed

lemma strip_examples:
  "py_strip ''aspirin'' = ''aspirin''" "py_strip '''' = ''''"
  "py_strip ''unknownxyz123'' = ''unknownxyz123''"
  by (simp_all add: py_strip_def py_isspace_def)

lemma deployed_aspirin_record:
  "snd (get_openfda_warnings deployed_world ''aspirin'') =
     \<lparr>drug_name = ''aspirin'', brand = JStr ''Bayer Aspirin'', generic = JStr ''ASPIRIN'',
      warnings = JStr ''Reye syndrome warning'', found = True\<rparr>"
  by (simp add: get_openfda_warnings_snd fda_mcp_attempt_def deployed_world_def
      invoke_check_drug_safety_def check_drug_safety_def strip_examples call_openfda_api_def
      label_source_def openfda_try_key_def openfda_record_def single_output_def bind_exn_def
      model_dump_def dict_get_def)

lemma deployed_unknown_record:
  "snd (get_openfda_warnings deployed_world ''unknownxyz123'') =
     \<lparr>drug_name = ''unknownxyz123'', brand = JStr ''N/A'', generic = JStr ''N/A'',
      warnings = JStr ''No data found.'', found = True\<rparr>"
  by (simp add: get_openfda_warnings_snd fda_mcp_attempt_def deployed_unknown_answer
      bind_exn_def dict_get_def)

text \<open>
  C2. With the repository's own tool server running, the batch
  \<open>["aspirin", "", "unknownxyz123"]\<close> gives two records in input order, and the
  record of the unknown drug carries the sentinel brand, generic name and warning but
  \<open>found = True\<close>: the tool server answered 200 with \<open>found: false\<close>, and the
  client sets the flag to \<open>True\<close> on every such answer.
\<close>

theorem deployed_batch_reports_unknown_drug_found:
  "results (snd (get_openfda_warnings_batch deployed_world [''aspirin'', '''', ''unknownxyz123''])) =
        [\<lparr>drug_name = ''aspirin'', brand = JStr ''Bayer Aspirin'', generic = JStr ''ASPIRIN'',
          warnings = JStr ''Reye syndrome warning'', found = True\<rparr>,
         \<lparr>drug_name = ''unknownxyz123'', brand = JStr ''N/A'', generic = JStr ''N/A'',
          warnings = JStr ''No data found.'', found = True\<rparr>]"
  by (simp add: batch_results strip_examples deployed_aspirin_record deployed_unknown_record)








section \<open>Properties of the index cache, the retriever and the guideline agent\<close>

text \<open>
  C7 (amended). With no index cached, no snapshot file and no guideline document,
  \<open>rag_lookup_kb\<close> returns the empty list for every query and every \<open>k\<close>: it
  terminates, raises nothing, looks for the two files and leaves the state as it was.
  With no index cached and a snapshot file that cannot be unpickled it raises the error
  of \<open>pickle.load\<close> instead, after reading the file: nothing on the way catches it.
\<close>

theorem rag_lookup_unavailable:
  "(kb_index_data s = None \<and> pickle_file s = Absent \<and> stg_pdf s = None \<longrightarrow>
      rag_lookup_kb w s query top_k =
        Some ([RagLookup query top_k, PathExists KB_INDEX_PICKLE, PathExists STG_PDF],
              s, Inr []))
   \<and> (kb_index_data s = None \<and> pickle_file s = Corrupt \<longrightarrow>
      rag_lookup_kb w s query top_k =
        Some ([RagLookup query top_k, PathExists KB_INDEX_PICKLE, FileRead KB_INDEX_PICKLE],
              s, Inl UnpicklingError))"
  by (simp add: rag_lookup_kb_def ensure_kb_index_def load_kb_index_def)

text \<open>
  A process with nothing cached, no guideline document and a snapshot file that cannot be
  loaded: the lookup raises instead of returning the empty list.
\<close>

theorem unloadable_snapshot_counterexample:
  "kb_index_data corrupt_sys = None \<and> pickle_file corrupt_sys = Corrupt
   \<and> stg_pdf corrupt_sys = None
   \<and> rag_lookup_kb offline_world corrupt_sys ''fever'' 4 =
       Some ([RagLookup ''fever'' 4, PathExists KB_INDEX_PICKLE, FileRead KB_INDEX_PICKLE],
             corrupt_sys, Inl UnpicklingError)"
  by (simp add: corrupt_sys_def rag_lookup_kb_def ensure_kb_index_def load_kb_index_def)

text \<open>
  The theorem in a process that has nothing cached and nothing on disk, and in one whose
  snapshot file cannot be read.
\<close>

theorem rag_lookup_unavailable_witness:
  "kb_index_data bare_sys = None \<and> pickle_file bare_sys = Absent \<and> stg_pdf bare_sys = None
   \<and> rag_lookup_kb offline_world bare_sys ''fever'' 4 =
     Some ([RagLookup ''fever'' 4, PathExists KB_INDEX_PICKLE, PathExists STG_PDF],
           bare_sys, Inr [])
   \<and> kb_index_data corrupt_sys = None \<and> pickle_file corrupt_sys = Corrupt
   \<and> rag_lookup_kb offline_world corrupt_sys ''cough'' 2 =
     Some ([RagLookup ''cough'' 2, PathExists KB_INDEX_PICKLE, FileRead KB_INDEX_PICKLE],
           corrupt_sys, Inl UnpicklingError)"
proof -
  have a: "kb_index_data bare_sys = None" and b: "pickle_file bare_sys = Absent"
    and c: "stg_pdf bare_sys = None"
    by (simp_all add: bare_sys_def)
  have d: "kb_index_data corrupt_sys = None" and e: "pickle_file corrupt_sys = Corrupt"
    by (simp_all add: corrupt_sys_def)
  have "rag_lookup_kb offline_world bare_sys ''fever'' 4 =
     Some ([RagLookup ''fever'' 4, PathExists KB_INDEX_PICKLE, PathExists STG_PDF],
           bare_sys, Inr [])"
    using a b c rag_lookup_unavailable [of bare_sys offline_world "''fever''" 4] by blast
  moreover have "rag_lookup_kb offline_world corrupt_sys ''cough'' 2 =
     Some ([RagLookup ''cough'' 2, PathExists KB_INDEX_PICKLE, FileRead KB_INDEX_PICKLE],
           corrupt_sys, Inl UnpicklingError)"
    using d e rag_lookup_unavailable [of corrupt_sys offline_world "''cough''" 2] by blast
  ultimately show ?thesis using a b c d e by blast
qed

lemma ensure_cached:
  "kb_index_data s = Some d \<Longrightarrow> ensure_kb_index w s = Some ([], s, Inr (Some d))"
  by (simp add: ensure_kb_index_def)

text \<open>
  C9. With nothing cached and a snapshot on disk, the first \<open>ensure_kb_index\<close> tests
  for the snapshot and reads it, caches the index and returns it; the second call, in the
  state the first one left, touches no storage, leaves the state unchanged and returns
  the same index.
\<close>

theorem ensure_kb_index_idempotent:
  assumes "kb_index_data s = None" and "pickle_file s = Pickled d"
  shows "ensure_kb_index w s =
       Some ([PathExists KB_INDEX_PICKLE, FileRead KB_INDEX_PICKLE],
             s\<lparr>kb_index_data := Some d\<rparr>, Inr (Some d))
     \<and> ensure_kb_index w (s\<lparr>kb_index_data := Some d\<rparr>) =
       Some ([], s\<lparr>kb_index_data := Some d\<rparr>, Inr (Some d))"
  using assms by (simp add: ensure_kb_index_def load_kb_index_def)

text \<open>
  The theorem for the example snapshot: the first call leaves the process with the index
  cached, the second call is free of storage events.
\<close>

theorem ensure_kb_index_idempotent_witness:
  "kb_index_data snapshot_sys = None \<and> pickle_file snapshot_sys = Pickled example_kb
   \<and> ensure_kb_index offline_world snapshot_sys =
       Some ([PathExists KB_INDEX_PICKLE, FileRead KB_INDEX_PICKLE], loaded_sys,
             Inr (Some example_kb))
   \<and> ensure_kb_index offline_world loaded_sys = Some ([], loaded_sys, Inr (Some example_kb))"
proof -
  have a: "kb_index_data snapshot_sys = None"
    and b: "pickle_file snapshot_sys = Pickled example_kb"
    by (simp_all add: snapshot_sys_def)
  have c: "snapshot_sys\<lparr>kb_index_data := Some example_kb\<rparr> = loaded_sys"
    by (simp add: snapshot_sys_def loaded_sys_def)
  show ?thesis
    using a b ensure_kb_index_idempotent [OF a b, of offline_world] unfolding c by blast
qed

lemma list_index_first:
  "j < length xs \<Longrightarrow> xs ! j = x \<Longrightarrow> (\<forall>i<j. xs ! i \<noteq> x) \<Longrightarrow> list_index xs x = Inr j"
proof (induction xs arbitrary: j)
  case Nil
  then show ?case by simp
next
  case (Cons y ys)
  show ?case
  proof (cases j)
    case 0
    then show ?thesis using Cons.prems by simp
  next
    case (Suc m)
    have "y \<noteq> x" using Cons.prems(3) Suc by auto
    moreover have "list_index ys x = Inr m"
    proof (rule Cons.IH)
      show "m < length ys" using Cons.prems(1) Suc by simp
      show "ys ! m = x" using Cons.prems(2) Suc by simp
      show "\<forall>i<m. ys ! i \<noteq> x" using Cons.prems(3) Suc by auto
    qed
    ultimately show ?thesis using Suc by (simp add: bind_exn_def)
  qed
qed

lemma rag_hits_padding:
  "rag_hits ps ds ids (replicate pad (- 1)) = Inr []"
  by (induction pad) simp_all

lemma rag_hits_suffix:
  assumes dist: "distinct ranked"
    and valid: "\<forall>i\<in>set ranked. i < length ps"
    and ids: "ids = map int ranked @ replicate pad (- 1)"
    and len: "length ranked \<le> length ds"
  shows "j \<le> length ranked \<Longrightarrow>
     rag_hits ps ds ids (drop j ids) =
       Inr (map (\<lambda>m. \<lparr>passage = ps ! (ranked ! m), score = ds ! m\<rparr>) [j..<length ranked])"
proof (induction "length ranked - j" arbitrary: j)
  case 0
  then have "j = length ranked" by simp
  then show ?case by (simp add: ids rag_hits_padding)
next
  case (Suc d)
  then have j: "j < length ranked" by simp
  have jl: "j < length ids" using j by (simp add: ids)
  have idj: "ids ! j = int (ranked ! j)" using j by (simp add: ids nth_append)
  have ok: "0 \<le> ids ! j \<and> ids ! j < int (length ps)"
    using valid j by (simp add: idj)
  have first: "\<forall>i<j. ids ! i \<noteq> ids ! j"
  proof (intro allI impI)
    fix i assume "i < j"
    then have "ranked ! i \<noteq> ranked ! j"
      using dist j by (simp add: nth_eq_iff_index_eq)
    then show "ids ! i \<noteq> ids ! j"
      using \<open>i < j\<close> j by (simp add: ids nth_append)
  qed
  have li: "list_index ids (ids ! j) = Inr j"
    using list_index_first [OF jl refl first] .
  have nth: "py_nth ds j = Inr (ds ! j)"
    using j len by (simp add: py_nth_def)
  have IH: "rag_hits ps ds ids (drop (Suc j) ids) =
       Inr (map (\<lambda>m. \<lparr>passage = ps ! (ranked ! m), score = ds ! m\<rparr>) [Suc j..<length ranked])"
    using Suc.hyps(1) [of "Suc j"] Suc.hyps(2) j by simp
  have "drop j ids = ids ! j # drop (Suc j) ids"
    using jl by (simp add: Cons_nth_drop_Suc)
  then have "rag_hits ps ds ids (drop j ids) =
      Inr (\<lparr>passage = ps ! nat (ids ! j), score = ds ! j\<rparr>
           # map (\<lambda>m. \<lparr>passage = ps ! (ranked ! m), score = ds ! m\<rparr>) [Suc j..<length ranked])"
    using ok li nth IH by (simp add: bind_exn_def)
  then show ?case using j by (simp add: idj upt_conv_Cons)
qed

lemma rag_hits_ranked:
  assumes "distinct ranked" and "\<forall>i\<in>set ranked. i < length ps"
  shows "rag_hits ps (map f ranked @ replicate pad mx) (map int ranked @ replicate pad (- 1))
           (map int ranked @ replicate pad (- 1))
     = Inr (map (\<lambda>i. \<lparr>passage = ps ! i, score = f i\<rparr>) ranked)"
proof -
  let ?ds = "map f ranked @ replicate pad mx"
  let ?ids = "map int ranked @ replicate pad (- 1)"
  have "rag_hits ps ?ds ?ids (drop 0 ?ids) =
       Inr (map (\<lambda>m. \<lparr>passage = ps ! (ranked ! m), score = ?ds ! m\<rparr>) [0..<length ranked])"
    by (rule rag_hits_suffix [OF assms refl]) simp_all
  moreover have "map (\<lambda>m. \<lparr>passage = ps ! (ranked ! m), score = ?ds ! m\<rparr>) [0..<length ranked]
      = map (\<lambda>i. \<lparr>passage = ps ! i, score = f i\<rparr>) ranked"
    by (rule nth_equalityI) (simp_all add: nth_append)
  ultimately show ?thesis by simp
qed

lemma ranking_props:
  "distinct (ranking vecs q)" "set (ranking vecs q) = {0..<length vecs}"
  "length (ranking vecs q) = length vecs"
  "sorted (map (\<lambda>i. l2_distance q (vecs ! i)) (ranking vecs q))"
  by (simp_all add: ranking_def)

lemma ranked_below_rest:
  assumes "i \<in> set (take k (ranking vecs q))" and "j < length vecs"
    and "j \<notin> set (take k (ranking vecs q))"
  shows "l2_distance q (vecs ! i) \<le> l2_distance q (vecs ! j)"
proof -
  let ?f = "\<lambda>i. l2_distance q (vecs ! i)"
  let ?r = "ranking vecs q"
  have "j \<in> set ?r" using assms(2) by (simp add: ranking_props)
  then have "j \<in> set (take k ?r) \<union> set (drop k ?r)"
    by (metis append_take_drop_id set_append)
  then have jd: "j \<in> set (drop k ?r)" using assms(3) by simp
  have "sorted (map ?f (take k ?r) @ map ?f (drop k ?r))"
    using ranking_props(4) [of q vecs] by (metis append_take_drop_id map_append)
  then have "\<forall>x\<in>set (map ?f (take k ?r)). \<forall>y\<in>set (map ?f (drop k ?r)). x \<le> y"
    by (simp add: sorted_append)
  then show ?thesis using assms(1) jd by auto
qed

text \<open>
  C5. Against an available index whose vectors and passages correspond, and \<open>k > 0\<close>,
  \<open>rag_lookup_kb\<close> returns \<open>min k n\<close> hits; the \<open>i\<close>-th hit is the passage at
  position \<open>I[i]\<close> with score \<open>D[i]\<close>, which is its distance to the query; the
  scores ascend; the returned positions are distinct; and no passage left out is nearer
  than a returned one. Nothing is assumed about the distances, so equal distances at
  several ranks are included.
\<close>

theorem rag_lookup_top_k:
  assumes "ensure_kb_index w s = Some (evs, s', Inr (Some kb))"
    and "length (index kb) = length (passages kb)" and "0 < k"
  shows "\<exists>hits ds ids.
       index_search (index kb) (embed w query) k = (ds, ids)
     \<and> rag_lookup_kb w s query k = Some (RagLookup query k # evs, s', Inr hits)
     \<and> length hits = min k (length (passages kb))
     \<and> (\<forall>i<length hits. 0 \<le> ids ! i
           \<and> passage (hits ! i) = passages kb ! nat (ids ! i)
           \<and> score (hits ! i) = ds ! i
           \<and> score (hits ! i) = l2_distance (embed w query) (index kb ! nat (ids ! i)))
     \<and> sorted (map score hits)
     \<and> distinct (take (length hits) ids)
     \<and> (\<forall>j<length (passages kb). int j \<notin> set (take (length hits) ids) \<longrightarrow>
           (\<forall>h\<in>set hits. score h \<le> l2_distance (embed w query) (index kb ! j)))"
proof -
  define vecs where "vecs = index kb"
  define ps where "ps = passages kb"
  define q where "q = embed w query"
  define f where "f = (\<lambda>i. l2_distance q (vecs ! i))"
  define ranked where "ranked = take k (ranking vecs q)"
  define pad where "pad = k - length ranked"
  define ds where "ds = map f ranked @ replicate pad FLT_MAX"
  define ids where "ids = map int ranked @ replicate pad (- 1)"
  define hits where "hits = map (\<lambda>i. \<lparr>passage = ps ! i, score = f i\<rparr>) ranked"
  have n: "length vecs = length ps" using assms(2) by (simp add: vecs_def ps_def)
  have dist: "distinct ranked" by (simp add: ranked_def ranking_props)
  have valid: "\<forall>i\<in>set ranked. i < length ps"
  proof
    fix i assume "i \<in> set ranked"
    then have "i \<in> set (ranking vecs q)" unfolding ranked_def by (rule in_set_takeD)
    then show "i < length ps" using n by (simp add: ranking_props)
  qed
  have lr: "length ranked = min k (length ps)"
    using n by (simp add: ranked_def ranking_props min.commute)
  have search: "index_search vecs q k = (ds, ids)"
    by (simp add: index_search_def Let_def ds_def ids_def pad_def ranked_def f_def)
  have loop: "rag_hits ps ds ids ids = Inr hits"
    unfolding ds_def ids_def hits_def by (rule rag_hits_ranked [OF dist valid])
  have run: "rag_lookup_kb w s query k = Some (RagLookup query k # evs, s', Inr hits)"
    using assms(1) search loop
    by (simp add: rag_lookup_kb_def vecs_def ps_def q_def)
  have lh: "length hits = length ranked" by (simp add: hits_def)
  have pos: "\<forall>i<length hits. 0 \<le> ids ! i
           \<and> passage (hits ! i) = ps ! nat (ids ! i)
           \<and> score (hits ! i) = ds ! i
           \<and> score (hits ! i) = l2_distance q (vecs ! nat (ids ! i))"
    by (simp add: lh hits_def ids_def ds_def nth_append f_def)
  have "map score hits = take k (map f (ranking vecs q))"
    by (simp add: hits_def ranked_def comp_def take_map)
  moreover have "sorted (map f (ranking vecs q))"
    unfolding f_def by (rule ranking_props)
  ultimately have srt: "sorted (map score hits)"
    by (simp add: sorted_wrt_take)
  have tk: "take (length hits) ids = map int ranked"
    by (simp add: lh ids_def)
  have dst: "distinct (take (length hits) ids)"
    using dist by (simp add: tk distinct_map inj_on_def)
  have low: "\<forall>j<length ps. int j \<notin> set (take (length hits) ids) \<longrightarrow>
           (\<forall>h\<in>set hits. score h \<le> l2_distance q (vecs ! j))"
  proof (intro allI impI ballI)
    fix j h
    assume j: "j < length ps" and out: "int j \<notin> set (take (length hits) ids)"
      and h: "h \<in> set hits"
    have "j \<notin> set ranked" using out by (auto simp: tk)
    moreover obtain i where i: "i \<in> set ranked" and hi: "score h = f i"
      using h by (auto simp: hits_def)
    ultimately show "score h \<le> l2_distance q (vecs ! j)"
      using ranked_below_rest [of i k vecs q j] j n by (simp add: ranked_def hi f_def)
  qed
  have lh': "length hits = min k (length ps)" using lr lh by simp
  from search run lh' pos srt dst low show ?thesis
    unfolding vecs_def ps_def q_def by blast
qed

lemma example_search:
  "index_search (index example_kb) (embed (kb_world JNull) ''fever'') 3 = ([0, 1, 1], [2, 0, 1])"
  by (simp add: index_search_def ranking_def example_kb_def kb_world_def l2_distance_def
      Let_def upt_rec)

lemma example_lookup:
  "rag_lookup_kb (kb_world JNull) loaded_sys ''fever'' 3 =
     Some ([RagLookup ''fever'' 3], loaded_sys,
           Inr [\<lparr>passage = ''paracetamol'', score = 0\<rparr>, \<lparr>passage = ''rest'', score = 1\<rparr>,
                \<lparr>passage = ''fluids'', score = 1\<rparr>])"
proof -
  have "kb_index_data loaded_sys = Some example_kb" by (simp add: loaded_sys_def)
  then show ?thesis
    using example_search
    by (simp add: rag_lookup_kb_def ensure_kb_index_def bind_exn_def py_nth_def)
       (simp add: example_kb_def)
qed

text \<open>
  The theorem on the example index, where two passages are at the same distance from the
  query.
\<close>

theorem rag_lookup_top_k_witness:
  "ensure_kb_index (kb_world JNull) loaded_sys = Some ([], loaded_sys, Inr (Some example_kb))
   \<and> length (index example_kb) = length (passages example_kb)
   \<and> (0::nat) < 3
   \<and> rag_lookup_kb (kb_world JNull) loaded_sys ''fever'' 3 =
       Some ([RagLookup ''fever'' 3], loaded_sys,
             Inr [\<lparr>passage = ''paracetamol'', score = 0\<rparr>, \<lparr>passage = ''rest'', score = 1\<rparr>,
                  \<lparr>passage = ''fluids'', score = 1\<rparr>])
   \<and> (\<exists>hits ds ids.
       index_search (index example_kb) (embed (kb_world JNull) ''fever'') 3 = (ds, ids)
     \<and> rag_lookup_kb (kb_world JNull) loaded_sys ''fever'' 3
         = Some ([RagLookup ''fever'' 3], loaded_sys, Inr hits)
     \<and> length hits = min 3 (length (passages example_kb))
     \<and> (\<forall>i<length hits. 0 \<le> ids ! i
           \<and> passage (hits ! i) = passages example_kb ! nat (ids ! i)
           \<and> score (hits ! i) = ds ! i
           \<and> score (hits ! i)
               = l2_distance (embed (kb_world JNull) ''fever'') (index example_kb ! nat (ids ! i)))
     \<and> sorted (map score hits)
     \<and> distinct (take (length hits) ids)
     \<and> (\<forall>j<length (passages example_kb). int j \<notin> set (take (length hits) ids) \<longrightarrow>
           (\<forall>h\<in>set hits. score h
               \<le> l2_distance (embed (kb_world JNull) ''fever'') (index example_kb ! j))))"
proof -
  have a: "ensure_kb_index (kb_world JNull) loaded_sys
      = Some ([], loaded_sys, Inr (Some example_kb))"
    by (rule ensure_cached) (simp add: loaded_sys_def)
  have b: "length (index example_kb) = length (passages example_kb)"
    by (simp add: example_kb_def)
  have c: "(0::nat) < 3" by simp
  show ?thesis
    using a b c example_lookup rag_lookup_top_k [OF a b c, of "''fever''"]
    by blast
qed

lemma fetch_kb_failed:
  "\<not> kb_primary_ok resp \<Longrightarrow> fetch_kb_via_mcp resp = JNull"
proof (cases resp)
  case NoResponse
  then show ?thesis by (simp add: fetch_kb_via_mcp_def)
next
  case (Response st body)
  assume nok: "\<not> kb_primary_ok resp"
  show ?thesis
  proof (cases body)
    case None
    then show ?thesis using Response by (simp add: fetch_kb_via_mcp_def)
  next
    case (Some j)
    then show ?thesis using Response nok
      by (cases j) (auto simp: fetch_kb_via_mcp_def split: json.splits option.splits)
  qed
qed

lemma fetch_kb_snippets:
  "resp = Response 200 (Some (JDict body)) \<Longrightarrow> dict_get body ''result'' (JDict []) = JDict res
   \<Longrightarrow> map_of res ''guideline_snippets'' = Some snippets
   \<Longrightarrow> fetch_kb_via_mcp resp = snippets"
  by (simp add: fetch_kb_via_mcp_def)

lemma kb_agent_hits_primary:
  "py_truthy (fetch_kb_via_mcp (kb_mcp w query)) \<Longrightarrow>
   kb_agent_hits w s query k
     = Some ([KbMcpPost query], s, Inr (Hits (fetch_kb_via_mcp (kb_mcp w query))))"
  by (simp add: kb_agent_hits_def Let_def)

lemma kb_agent_hits_local:
  "\<not> py_truthy (fetch_kb_via_mcp (kb_mcp w query)) \<Longrightarrow>
   rag_lookup_kb w s query k = Some (evs, s', Inr local_hits) \<Longrightarrow>
   kb_agent_hits w s query k
     = Some (KbMcpPost query # evs, s',
             Inr (if local_hits = [] then NoGuidelines else Hits (local_passages local_hits)))"
  by (simp add: kb_agent_hits_def Let_def)

lemma get_openfda_warnings_fst_primary:
  "fda_mcp_attempt (fda_mcp w n) n = Inr (Some r) \<Longrightarrow> get_openfda_warnings w n = ([FdaMcpPost n], r)"
  by (simp add: get_openfda_warnings_def)

lemma get_openfda_warnings_secondary:
  assumes "\<not> primary_ok (fda_mcp w n)"
  shows "get_openfda_warnings w n
     = (FdaMcpPost n # fst (openfda_fallback w n), snd (openfda_fallback w n))"
proof (cases "fda_mcp_attempt (fda_mcp w n) n")
  case (Inl e)
  then show ?thesis
    unfolding get_openfda_warnings_def by (cases "openfda_fallback w n") simp
next
  case (Inr x)
  then have "x = None"
    using assms primary_ok_iff [of "fda_mcp w n" n] by (cases x) auto
  then show ?thesis using Inr
    unfolding get_openfda_warnings_def by (cases "openfda_fallback w n") simp
qed

lemma try_key_hit:
  assumes "resp = Response 200 (Some (JDict lbody))"
    and "dict_get lbody ''results'' (JList []) = JList (JDict entry # others)"
    and "dict_get entry ''openfda'' (JDict []) = JDict ofda"
    and "dict_get ofda ''brand_name'' (JList [JStr ''N/A'']) = JList (b # bs)"
    and "dict_get ofda ''generic_name'' (JList [JStr ''N/A'']) = JList (g # gs)"
    and "dict_get entry ''warnings'' (JList [JStr ''No warnings available.''])
          = JList (wn # ws)"
  shows "openfda_try_key resp name =
     Inr (Some \<lparr>drug_name = name, brand = b, generic = g, warnings = wn, found = True\<rparr>)"
  using assms by (simp add: openfda_try_key_def openfda_record_def bind_exn_def)

lemma try_key_no_match: "no_match resp \<Longrightarrow> openfda_try_key resp name = Inr None"
proof (cases resp)
  case NoResponse
  then show "no_match resp \<Longrightarrow> ?thesis" by simp
next
  case (Response st body)
  assume nm: "no_match resp"
  show ?thesis
  proof (cases "st = 200")
    case False
    then show ?thesis using Response by (simp add: openfda_try_key_def)
  next
    case True
    then obtain kvs where "body = Some (JDict kvs)"
        and "\<not> py_truthy (dict_get kvs ''results'' (JList []))"
      using nm Response by (auto split: option.splits json.splits)
    then show ?thesis using Response True
      by (simp add: openfda_try_key_def bind_exn_def)
  qed
qed

lemma fallback_first_key:
  "openfda_try_key (openfda w ''brand_name'' name) name = Inr (Some r) \<Longrightarrow>
   openfda_fallback w name = ([OpenFdaGet ''brand_name'' name], r)"
  by (simp add: openfda_fallback_def)

lemma fallback_second_key:
  "openfda_try_key (openfda w ''brand_name'' name) name = Inr None \<Longrightarrow>
   openfda_try_key (openfda w ''generic_name'' name) name = Inr (Some r) \<Longrightarrow>
   openfda_fallback w name =
     ([OpenFdaGet ''brand_name'' name, OpenFdaGet ''generic_name'' name], r)"
  by (simp add: openfda_fallback_def)

lemma fallback_no_key:
  "openfda_try_key (openfda w ''brand_name'' name) name = Inr None \<Longrightarrow>
   openfda_try_key (openfda w ''generic_name'' name) name = Inr None \<Longrightarrow>
   openfda_fallback w name =
     ([OpenFdaGet ''brand_name'' name, OpenFdaGet ''generic_name'' name],
      not_found_record name)"
  by (simp add: openfda_fallback_def)

lemma fallback_no_response:
  "openfda w ''brand_name'' name = NoResponse \<Longrightarrow>
   openfda_fallback w name = ([OpenFdaGet ''brand_name'' name], not_found_record name)"
  by (simp add: openfda_fallback_def openfda_try_key_def)

text \<open>
  The lookup when the tool server gives no usable answer, by what the public label source
  answers: a match under the brand name; no match under the brand name and a match under
  the generic name; no match under either; no response to the first request.
\<close>

lemma lookup_label_source:
  assumes "\<not> primary_ok (fda_mcp w name)"
    and "resp = Response 200 (Some (JDict lbody))"
    and "dict_get lbody ''results'' (JList []) = JList (JDict entry # others)"
    and "dict_get entry ''openfda'' (JDict []) = JDict ofda"
    and "dict_get ofda ''brand_name'' (JList [JStr ''N/A'']) = JList (b # bs)"
    and "dict_get ofda ''generic_name'' (JList [JStr ''N/A'']) = JList (g # gs)"
    and "dict_get entry ''warnings'' (JList [JStr ''No warnings available.''])
          = JList (wn # ws)"
  shows "openfda w ''brand_name'' name = resp \<Longrightarrow>
       get_openfda_warnings w name =
         ([FdaMcpPost name, OpenFdaGet ''brand_name'' name],
          \<lparr>drug_name = name, brand = b, generic = g, warnings = wn, found = True\<rparr>)"
    and "no_match (openfda w ''brand_name'' name) \<Longrightarrow> openfda w ''generic_name'' name = resp \<Longrightarrow>
       get_openfda_warnings w name =
         ([FdaMcpPost name, OpenFdaGet ''brand_name'' name, OpenFdaGet ''generic_name'' name],
          \<lparr>drug_name = name, brand = b, generic = g, warnings = wn, found = True\<rparr>)"
proof -
  let ?r = "\<lparr>drug_name = name, brand = b, generic = g, warnings = wn, found = True\<rparr>"
  have hit: "openfda_try_key resp name = Inr (Some ?r)"
    by (rule try_key_hit [OF assms(2-7)])
  {
    assume "openfda w ''brand_name'' name = resp"
    then have "openfda_fallback w name = ([OpenFdaGet ''brand_name'' name], ?r)"
      using hit by (simp add: fallback_first_key)
    then show "get_openfda_warnings w name =
         ([FdaMcpPost name, OpenFdaGet ''brand_name'' name], ?r)"
      using get_openfda_warnings_secondary [OF assms(1)] by simp
  }
  {
    assume "no_match (openfda w ''brand_name'' name)" and "openfda w ''generic_name'' name = resp"
    then have "openfda_fallback w name =
        ([OpenFdaGet ''brand_name'' name, OpenFdaGet ''generic_name'' name], ?r)"
      using hit by (simp add: fallback_second_key try_key_no_match)
    then show "get_openfda_warnings w name =
         ([FdaMcpPost name, OpenFdaGet ''brand_name'' name, OpenFdaGet ''generic_name'' name],
          ?r)"
      using get_openfda_warnings_secondary [OF assms(1)] by simp
  }
qed

lemma lookup_no_match:
  assumes "\<not> primary_ok (fda_mcp w name)"
    and "no_match (openfda w ''brand_name'' name)"
    and "no_match (openfda w ''generic_name'' name)"
  shows "get_openfda_warnings w name =
     ([FdaMcpPost name, OpenFdaGet ''brand_name'' name, OpenFdaGet ''generic_name'' name],
      not_found_record name)"
  using get_openfda_warnings_secondary [OF assms(1)] assms(2,3)
  by (simp add: fallback_no_key try_key_no_match)

lemma lookup_no_response:
  assumes "\<not> primary_ok (fda_mcp w name)"
    and "openfda w ''brand_name'' name = NoResponse"
  shows "get_openfda_warnings w name =
     ([FdaMcpPost name, OpenFdaGet ''brand_name'' name], not_found_record name)"
  using get_openfda_warnings_secondary [OF assms(1)] assms(2)
  by (simp add: fallback_no_response)

lemma rag_lookup_kb_events:
  "rag_lookup_kb w s query k = Some (evs, s', r) \<Longrightarrow> \<exists>rest. evs = RagLookup query k # rest"
  by (auto simp: rag_lookup_kb_def split: option.splits prod.splits sum.splits)

lemma kb_agent_hits_raises:
  "\<not> py_truthy (fetch_kb_via_mcp (kb_mcp w query)) \<Longrightarrow>
   rag_lookup_kb w s query k = Some (evs, s', Inl e) \<Longrightarrow>
   kb_agent_hits w s query k = Some (KbMcpPost query # evs, s', Inl e)"
  by (simp add: kb_agent_hits_def Let_def)

text \<open>
  C1 (amended). Drug safety: on a primary answer with status 200 and a dict result the
  only request made is the one to the tool server, and the record carries the queried
  name and the brand, generic name and warnings of the primary result (defaults where a
  key is missing). On any other primary answer the public label source is asked, under
  the brand name and, when that holds no match, under the generic name: the first match
  gives the record, no match under either or no response gives the sentinel record.
  Guidelines: on a primary answer with status 200 whose result holds non-empty
  \<open>guideline_snippets\<close> these are the hits and the local retriever is not called. On a
  primary answer whose snippets are empty, and on a failed primary answer, the local
  retriever is called: its passages are the hits, as a JSON list of stripped strings, or
  the "nothing found" outcome when it returns none, and an error it raises is raised by
  the agent.
\<close>

theorem remote_first_dispatch:
  "(fda_mcp w name = Response 200 (Some (JDict body))
      \<and> dict_get body ''result'' (JDict []) = JDict res
      \<longrightarrow> fst (get_openfda_warnings w name) = [FdaMcpPost name]
        \<and> drug_name (snd (get_openfda_warnings w name)) = name
        \<and> brand (snd (get_openfda_warnings w name)) = dict_get res ''brand'' (JStr ''N/A'')
        \<and> generic (snd (get_openfda_warnings w name)) = dict_get res ''generic'' (JStr ''N/A'')
        \<and> warnings (snd (get_openfda_warnings w name))
            = dict_get res ''warnings'' (JStr ''No warnings available.''))
   \<and> (\<not> primary_ok (fda_mcp w name)
      \<longrightarrow> get_openfda_warnings w name
            = (FdaMcpPost name # fst (openfda_fallback w name), snd (openfda_fallback w name)))
   \<and> (\<not> primary_ok (fda_mcp w name)
      \<and> resp = Response 200 (Some (JDict lbody))
      \<and> dict_get lbody ''results'' (JList []) = JList (JDict entry # others)
      \<and> dict_get entry ''openfda'' (JDict []) = JDict ofda
      \<and> dict_get ofda ''brand_name'' (JList [JStr ''N/A'']) = JList (b # bs)
      \<and> dict_get ofda ''generic_name'' (JList [JStr ''N/A'']) = JList (g # gs)
      \<and> dict_get entry ''warnings'' (JList [JStr ''No warnings available.'']) = JList (wn # ws)
      \<longrightarrow> (openfda w ''brand_name'' name = resp
            \<longrightarrow> get_openfda_warnings w name =
                 ([FdaMcpPost name, OpenFdaGet ''brand_name'' name],
                  \<lparr>drug_name = name, brand = b, generic = g, warnings = wn, found = True\<rparr>))
        \<and> (no_match (openfda w ''brand_name'' name) \<and> openfda w ''generic_name'' name = resp
            \<longrightarrow> get_openfda_warnings w name =
                 ([FdaMcpPost name, OpenFdaGet ''brand_name'' name,
                   OpenFdaGet ''generic_name'' name],
                  \<lparr>drug_name = name, brand = b, generic = g, warnings = wn, found = True\<rparr>)))
   \<and> (\<not> primary_ok (fda_mcp w name) \<and> no_match (openfda w ''brand_name'' name)
      \<and> no_match (openfda w ''generic_name'' name)
      \<longrightarrow> get_openfda_warnings w name =
            ([FdaMcpPost name, OpenFdaGet ''brand_name'' name, OpenFdaGet ''generic_name'' name],
             not_found_record name))
   \<and> (\<not> primary_ok (fda_mcp w name) \<and> openfda w ''brand_name'' name = NoResponse
      \<longrightarrow> get_openfda_warnings w name =
            ([FdaMcpPost name, OpenFdaGet ''brand_name'' name], not_found_record name))
   \<and> (kb_mcp w query = Response 200 (Some (JDict kbody))
      \<and> dict_get kbody ''result'' (JDict []) = JDict kres
      \<and> map_of kres ''guideline_snippets'' = Some snippets \<and> py_truthy snippets
      \<longrightarrow> kb_agent_hits w s query k = Some ([KbMcpPost query], s, Inr (Hits snippets)))
   \<and> (kb_mcp w query = Response 200 (Some (JDict kbody))
      \<and> dict_get kbody ''result'' (JDict []) = JDict kres
      \<and> map_of kres ''guideline_snippets'' = Some snippets \<and> \<not> py_truthy snippets
      \<longrightarrow> (rag_lookup_kb w s query k = Some (evs, s', Inr local_hits)
            \<longrightarrow> (\<exists>rest. evs = RagLookup query k # rest)
              \<and> kb_agent_hits w s query k
                  = Some (KbMcpPost query # evs, s',
                      Inr (if local_hits = [] then NoGuidelines
                           else Hits (JList (map (\<lambda>h. JStr (py_strip (passage h)))
                                              (filter (\<lambda>h. passage h \<noteq> []) local_hits))))))
        \<and> (rag_lookup_kb w s query k = Some (evs, s', Inl e)
            \<longrightarrow> kb_agent_hits w s query k = Some (KbMcpPost query # evs, s', Inl e)))
   \<and> (\<not> kb_primary_ok (kb_mcp w query)
      \<longrightarrow> (rag_lookup_kb w s query k = Some (evs, s', Inr local_hits)
            \<longrightarrow> (\<exists>rest. evs = RagLookup query k # rest)
              \<and> kb_agent_hits w s query k
                  = Some (KbMcpPost query # evs, s',
                      Inr (if local_hits = [] then NoGuidelines
                           else Hits (JList (map (\<lambda>h. JStr (py_strip (passage h)))
                                              (filter (\<lambda>h. passage h \<noteq> []) local_hits))))))
        \<and> (rag_lookup_kb w s query k = Some (evs, s', Inl e)
            \<longrightarrow> kb_agent_hits w s query k = Some (KbMcpPost query # evs, s', Inl e)))"
proof -
  have c1: "fda_mcp w name = Response 200 (Some (JDict body))
      \<and> dict_get body ''result'' (JDict []) = JDict res
      \<longrightarrow> fst (get_openfda_warnings w name) = [FdaMcpPost name]
        \<and> drug_name (snd (get_openfda_warnings w name)) = name
        \<and> brand (snd (get_openfda_warnings w name)) = dict_get res ''brand'' (JStr ''N/A'')
        \<and> generic (snd (get_openfda_warnings w name)) = dict_get res ''generic'' (JStr ''N/A'')
        \<and> warnings (snd (get_openfda_warnings w name))
            = dict_get res ''warnings'' (JStr ''No warnings available.'')"
  proof
    assume a: "fda_mcp w name = Response 200 (Some (JDict body))
      \<and> dict_get body ''result'' (JDict []) = JDict res"
    define r where "r = \<lparr>drug_name = name, brand = dict_get res ''brand'' (JStr ''N/A''),
        generic = dict_get res ''generic'' (JStr ''N/A''),
        warnings = dict_get res ''warnings'' (JStr ''No warnings available.''), found = True\<rparr>"
    have "fda_mcp_attempt (fda_mcp w name) name = Inr (Some r)"
      using a by (simp add: fda_mcp_attempt_def bind_exn_def r_def)
    then have "get_openfda_warnings w name = ([FdaMcpPost name], r)"
      by (rule get_openfda_warnings_fst_primary)
    then show "fst (get_openfda_warnings w name) = [FdaMcpPost name]
        \<and> drug_name (snd (get_openfda_warnings w name)) = name
        \<and> brand (snd (get_openfda_warnings w name)) = dict_get res ''brand'' (JStr ''N/A'')
        \<and> generic (snd (get_openfda_warnings w name)) = dict_get res ''generic'' (JStr ''N/A'')
        \<and> warnings (snd (get_openfda_warnings w name))
            = dict_get res ''warnings'' (JStr ''No warnings available.'')"
      by (simp add: r_def)
  qed
  have c2: "\<not> primary_ok (fda_mcp w name)
      \<longrightarrow> get_openfda_warnings w name
            = (FdaMcpPost name # fst (openfda_fallback w name), snd (openfda_fallback w name))"
    using get_openfda_warnings_secondary by blast
  have c3: "\<not> primary_ok (fda_mcp w name)
      \<and> resp = Response 200 (Some (JDict lbody))
      \<and> dict_get lbody ''results'' (JList []) = JList (JDict entry # others)
      \<and> dict_get entry ''openfda'' (JDict []) = JDict ofda
      \<and> dict_get ofda ''brand_name'' (JList [JStr ''N/A'']) = JList (b # bs)
      \<and> dict_get ofda ''generic_name'' (JList [JStr ''N/A'']) = JList (g # gs)
      \<and> dict_get entry ''warnings'' (JList [JStr ''No warnings available.'']) = JList (wn # ws)
      \<longrightarrow> (openfda w ''brand_name'' name = resp
            \<longrightarrow> get_openfda_warnings w name =
                 ([FdaMcpPost name, OpenFdaGet ''brand_name'' name],
                  \<lparr>drug_name = name, brand = b, generic = g, warnings = wn, found = True\<rparr>))
        \<and> (no_match (openfda w ''brand_name'' name) \<and> openfda w ''generic_name'' name = resp
            \<longrightarrow> get_openfda_warnings w name =
                 ([FdaMcpPost name, OpenFdaGet ''brand_name'' name,
                   OpenFdaGet ''generic_name'' name],
                  \<lparr>drug_name = name, brand = b, generic = g, warnings = wn, found = True\<rparr>))"
    using lookup_label_source [of w name resp lbody entry others ofda b bs g gs wn ws] by blast
  have c4: "\<not> primary_ok (fda_mcp w name) \<and> no_match (openfda w ''brand_name'' name)
      \<and> no_match (openfda w ''generic_name'' name)
      \<longrightarrow> get_openfda_warnings w name =
            ([FdaMcpPost name, OpenFdaGet ''brand_name'' name, OpenFdaGet ''generic_name'' name],
             not_found_record name)"
    using lookup_no_match by blast
  have c5: "\<not> primary_ok (fda_mcp w name) \<and> openfda w ''brand_name'' name = NoResponse
      \<longrightarrow> get_openfda_warnings w name =
            ([FdaMcpPost name, OpenFdaGet ''brand_name'' name], not_found_record name)"
    using lookup_no_response by blast
  have c6: "kb_mcp w query = Response 200 (Some (JDict kbody))
      \<and> dict_get kbody ''result'' (JDict []) = JDict kres
      \<and> map_of kres ''guideline_snippets'' = Some snippets \<and> py_truthy snippets
      \<longrightarrow> kb_agent_hits w s query k = Some ([KbMcpPost query], s, Inr (Hits snippets))"
  proof
    assume a: "kb_mcp w query = Response 200 (Some (JDict kbody))
      \<and> dict_get kbody ''result'' (JDict []) = JDict kres
      \<and> map_of kres ''guideline_snippets'' = Some snippets \<and> py_truthy snippets"
    then have "fetch_kb_via_mcp (kb_mcp w query) = snippets"
      using fetch_kb_snippets [of "kb_mcp w query" kbody kres snippets] by blast
    then show "kb_agent_hits w s query k = Some ([KbMcpPost query], s, Inr (Hits snippets))"
      using a kb_agent_hits_primary [of w query s k] by simp
  qed
  have local: "(rag_lookup_kb w s query k = Some (evs, s', Inr local_hits)
            \<longrightarrow> (\<exists>rest. evs = RagLookup query k # rest)
              \<and> kb_agent_hits w s query k
                  = Some (KbMcpPost query # evs, s',
                      Inr (if local_hits = [] then NoGuidelines
                           else Hits (JList (map (\<lambda>h. JStr (py_strip (passage h)))
                                              (filter (\<lambda>h. passage h \<noteq> []) local_hits))))))
        \<and> (rag_lookup_kb w s query k = Some (evs, s', Inl e)
            \<longrightarrow> kb_agent_hits w s query k = Some (KbMcpPost query # evs, s', Inl e))"
    if nt: "\<not> py_truthy (fetch_kb_via_mcp (kb_mcp w query))"
  proof (intro conjI impI)
    assume r: "rag_lookup_kb w s query k = Some (evs, s', Inr local_hits)"
    show "\<exists>rest. evs = RagLookup query k # rest"
      using r by (rule rag_lookup_kb_events)
    show "kb_agent_hits w s query k
                  = Some (KbMcpPost query # evs, s',
                      Inr (if local_hits = [] then NoGuidelines
                           else Hits (JList (map (\<lambda>h. JStr (py_strip (passage h)))
                                              (filter (\<lambda>h. passage h \<noteq> []) local_hits)))))"
      using kb_agent_hits_local [OF nt r] by (simp add: local_passages_def)
  next
    assume "rag_lookup_kb w s query k = Some (evs, s', Inl e)"
    then show "kb_agent_hits w s query k = Some (KbMcpPost query # evs, s', Inl e)"
      by (rule kb_agent_hits_raises [OF nt])
  qed
  have c7: "kb_mcp w query = Response 200 (Some (JDict kbody))
      \<and> dict_get kbody ''result'' (JDict []) = JDict kres
      \<and> map_of kres ''guideline_snippets'' = Some snippets \<and> \<not> py_truthy snippets
      \<longrightarrow> (rag_lookup_kb w s query k = Some (evs, s', Inr local_hits)
            \<longrightarrow> (\<exists>rest. evs = RagLookup query k # rest)
              \<and> kb_agent_hits w s query k
                  = Some (KbMcpPost query # evs, s',
                      Inr (if local_hits = [] then NoGuidelines
                           else Hits (JList (map (\<lambda>h. JStr (py_strip (passage h)))
                                              (filter (\<lambda>h. passage h \<noteq> []) local_hits))))))
        \<and> (rag_lookup_kb w s query k = Some (evs, s', Inl e)
            \<longrightarrow> kb_agent_hits w s query k = Some (KbMcpPost query # evs, s', Inl e))"
  proof
    assume a: "kb_mcp w query = Response 200 (Some (JDict kbody))
      \<and> dict_get kbody ''result'' (JDict []) = JDict kres
      \<and> map_of kres ''guideline_snippets'' = Some snippets \<and> \<not> py_truthy snippets"
    then have "fetch_kb_via_mcp (kb_mcp w query) = snippets"
      using fetch_kb_snippets [of "kb_mcp w query" kbody kres snippets] by blast
    then have "\<not> py_truthy (fetch_kb_via_mcp (kb_mcp w query))" using a by simp
    then show "(rag_lookup_kb w s query k = Some (evs, s', Inr local_hits)
            \<longrightarrow> (\<exists>rest. evs = RagLookup query k # rest)
              \<and> kb_agent_hits w s query k
                  = Some (KbMcpPost query # evs, s',
                      Inr (if local_hits = [] then NoGuidelines
                           else Hits (JList (map (\<lambda>h. JStr (py_strip (passage h)))
                                              (filter (\<lambda>h. passage h \<noteq> []) local_hits))))))
        \<and> (rag_lookup_kb w s query k = Some (evs, s', Inl e)
            \<longrightarrow> kb_agent_hits w s query k = Some (KbMcpPost query # evs, s', Inl e))"
      by (rule local)
  qed
  have c8: "\<not> kb_primary_ok (kb_mcp w query)
      \<longrightarrow> (rag_lookup_kb w s query k = Some (evs, s', Inr local_hits)
            \<longrightarrow> (\<exists>rest. evs = RagLookup query k # rest)
              \<and> kb_agent_hits w s query k
                  = Some (KbMcpPost query # evs, s',
                      Inr (if local_hits = [] then NoGuidelines
                           else Hits (JList (map (\<lambda>h. JStr (py_strip (passage h)))
                                              (filter (\<lambda>h. passage h \<noteq> []) local_hits))))))
        \<and> (rag_lookup_kb w s query k = Some (evs, s', Inl e)
            \<longrightarrow> kb_agent_hits w s query k = Some (KbMcpPost query # evs, s', Inl e))"
  proof
    assume "\<not> kb_primary_ok (kb_mcp w query)"
    then have "\<not> py_truthy (fetch_kb_via_mcp (kb_mcp w query))"
      by (simp add: fetch_kb_failed)
    then show "(rag_lookup_kb w s query k = Some (evs, s', Inr local_hits)
            \<longrightarrow> (\<exists>rest. evs = RagLookup query k # rest)
              \<and> kb_agent_hits w s query k
                  = Some (KbMcpPost query # evs, s',
                      Inr (if local_hits = [] then NoGuidelines
                           else Hits (JList (map (\<lambda>h. JStr (py_strip (passage h)))
                                              (filter (\<lambda>h. passage h \<noteq> []) local_hits))))))
        \<and> (rag_lookup_kb w s query k = Some (evs, s', Inl e)
            \<longrightarrow> kb_agent_hits w s query k = Some (KbMcpPost query # evs, s', Inl e))"
      by (rule local)
  qed
  show ?thesis
    using c1 c2 c3 c4 c5 c6 c7 c8 by (intro conjI) assumption+
qed

lemma empty_snippets_lookup:
  "rag_lookup_kb (kb_world (JList [])) loaded_sys ''fever'' 2 =
     Some ([RagLookup ''fever'' 2], loaded_sys,
           Inr [\<lparr>passage = ''paracetamol'', score = 0\<rparr>, \<lparr>passage = ''rest'', score = 1\<rparr>])"
proof -
  have "index_search (index example_kb) (embed (kb_world (JList [])) ''fever'') 2
      = ([0, 1], [2, 0])"
    by (simp add: index_search_def ranking_def example_kb_def kb_world_def l2_distance_def
        Let_def upt_rec)
  moreover have "kb_index_data loaded_sys = Some example_kb" by (simp add: loaded_sys_def)
  ultimately show ?thesis
    by (simp add: rag_lookup_kb_def ensure_kb_index_def bind_exn_def py_nth_def)
       (simp add: example_kb_def)
qed

lemma strip_passages:
  "py_strip ''paracetamol'' = ''paracetamol''" "py_strip ''rest'' = ''rest''"
  "py_strip ''fluids'' = ''fluids''"
  by (simp_all add: py_strip_def py_isspace_def)

text \<open>
  A primary answer with status 200 and a well-formed result whose snippet list is empty:
  \<open>kb_agent\<close> goes on to the local retriever and returns its passages.
\<close>

theorem empty_snippets_dispatch_counterexample:
  "kb_mcp (kb_world (JList [])) ''fever'' =
     Response 200 (Some (JDict [(''success'', JBool True),
        (''result'', JDict [(''guideline_snippets'', JList []),
                            (''query_used'', JStr ''fever'')])]))
   \<and> kb_agent_hits (kb_world (JList [])) loaded_sys ''fever'' 2 =
     Some ([KbMcpPost ''fever'', RagLookup ''fever'' 2], loaded_sys,
           Inr (Hits (JList [JStr ''paracetamol'', JStr ''rest''])))"
proof -
  have a: "kb_mcp (kb_world (JList [])) ''fever'' =
     Response 200 (Some (JDict [(''success'', JBool True),
        (''result'', JDict [(''guideline_snippets'', JList []),
                            (''query_used'', JStr ''fever'')])]))"
    by (simp add: kb_world_def)
  have "fetch_kb_via_mcp (kb_mcp (kb_world (JList [])) ''fever'') = JList []"
    by (simp add: a fetch_kb_via_mcp_def dict_get_def)
  then have "kb_agent_hits (kb_world (JList [])) loaded_sys ''fever'' 2 =
     Some ([KbMcpPost ''fever'', RagLookup ''fever'' 2], loaded_sys,
           Inr (Hits (JList [JStr ''paracetamol'', JStr ''rest''])))"
    using kb_agent_hits_local [OF _ empty_snippets_lookup]
    by (simp add: local_passages_def strip_passages)
  then show ?thesis using a by blast
qed

lemma deployed_aspirin_answer:
  "fda_mcp deployed_world ''aspirin'' =
     Response 200 (Some (JDict [(''success'', JBool True),
       (''result'', JDict [(''drug_name'', JStr ''aspirin''), (''brand'', JStr ''Bayer Aspirin''),
          (''generic'', JStr ''ASPIRIN''), (''warnings'', JStr ''Reye syndrome warning''),
          (''found'', JBool True)])]))"
  by (simp add: deployed_world_def invoke_check_drug_safety_def check_drug_safety_def
      strip_examples call_openfda_api_def label_source_def openfda_try_key_def
      openfda_record_def dict_get_def single_output_def bind_exn_def model_dump_def)

lemma offline_aspirin_fallback:
  "openfda_fallback offline_world ''aspirin'' =
     ([OpenFdaGet ''brand_name'' ''aspirin''],
      \<lparr>drug_name = ''aspirin'', brand = JStr ''Bayer Aspirin'', generic = JStr ''ASPIRIN'',
       warnings = JStr ''Reye syndrome warning'', found = True\<rparr>)"
  by (simp add: openfda_fallback_def offline_world_def label_source_def openfda_try_key_def
      openfda_record_def bind_exn_def dict_get_def)

lemma offline_lookup:
  "rag_lookup_kb offline_world loaded_sys ''fever'' 2 =
     Some ([RagLookup ''fever'' 2], loaded_sys,
           Inr [\<lparr>passage = ''paracetamol'', score = 0\<rparr>, \<lparr>passage = ''rest'', score = 1\<rparr>])"
proof -
  have "index_search (index example_kb) (embed offline_world ''fever'') 2 = ([0, 1], [2, 0])"
    by (simp add: index_search_def ranking_def example_kb_def offline_world_def l2_distance_def
        Let_def upt_rec)
  moreover have "kb_index_data loaded_sys = Some example_kb" by (simp add: loaded_sys_def)
  ultimately show ?thesis
    by (simp add: rag_lookup_kb_def ensure_kb_index_def bind_exn_def py_nth_def)
       (simp add: example_kb_def)
qed

lemma rag_lookup_corrupt:
  "kb_index_data s = None \<Longrightarrow> pickle_file s = Corrupt \<Longrightarrow>
   rag_lookup_kb w s query k =
     Some ([RagLookup query k, PathExists KB_INDEX_PICKLE, FileRead KB_INDEX_PICKLE],
           s, Inl UnpicklingError)"
  by (simp add: rag_lookup_kb_def ensure_kb_index_def load_kb_index_def)

text \<open>
  The theorem with and without a running tool server, for a drug the label source knows
  under its brand name, one it knows under its generic name only, one it does not know
  and a label source that does not respond; and for the guideline lookup with non-empty
  snippets, with empty snippets and with no guideline server, with the index cached and
  with a snapshot that cannot be read.
\<close>

theorem remote_first_dispatch_witness:
  "get_openfda_warnings deployed_world ''aspirin'' =
     ([FdaMcpPost ''aspirin''],
      \<lparr>drug_name = ''aspirin'', brand = JStr ''Bayer Aspirin'', generic = JStr ''ASPIRIN'',
       warnings = JStr ''Reye syndrome warning'', found = True\<rparr>)
   \<and> \<not> primary_ok (fda_mcp offline_world ''aspirin'')
   \<and> get_openfda_warnings offline_world ''aspirin'' =
     ([FdaMcpPost ''aspirin'', OpenFdaGet ''brand_name'' ''aspirin''],
      \<lparr>drug_name = ''aspirin'', brand = JStr ''Bayer Aspirin'', generic = JStr ''ASPIRIN'',
       warnings = JStr ''Reye syndrome warning'', found = True\<rparr>)
   \<and> no_match (openfda generic_world ''brand_name'' ''ibuprofen'')
   \<and> get_openfda_warnings generic_world ''ibuprofen'' =
     ([FdaMcpPost ''ibuprofen'', OpenFdaGet ''brand_name'' ''ibuprofen'',
       OpenFdaGet ''generic_name'' ''ibuprofen''],
      \<lparr>drug_name = ''ibuprofen'', brand = JStr ''Advil'', generic = JStr ''IBUPROFEN'',
       warnings = JStr (replicate 1100 CHR ''a''), found = True\<rparr>)
   \<and> get_openfda_warnings offline_world ''unknownxyz123'' =
     ([FdaMcpPost ''unknownxyz123'', OpenFdaGet ''brand_name'' ''unknownxyz123'',
       OpenFdaGet ''generic_name'' ''unknownxyz123''],
      not_found_record ''unknownxyz123'')
   \<and> get_openfda_warnings dead_world ''aspirin'' =
     ([FdaMcpPost ''aspirin'', OpenFdaGet ''brand_name'' ''aspirin''],
      not_found_record ''aspirin'')
   \<and> kb_agent_hits (kb_world (JList [JStr ''Give fluids''])) loaded_sys ''fever'' 2 =
     Some ([KbMcpPost ''fever''], loaded_sys, Inr (Hits (JList [JStr ''Give fluids''])))
   \<and> kb_agent_hits (kb_world (JList [])) loaded_sys ''fever'' 2 =
     Some ([KbMcpPost ''fever'', RagLookup ''fever'' 2], loaded_sys,
           Inr (Hits (JList [JStr ''paracetamol'', JStr ''rest''])))
   \<and> kb_agent_hits (kb_world (JList [])) corrupt_sys ''fever'' 2 =
     Some ([KbMcpPost ''fever'', RagLookup ''fever'' 2, PathExists KB_INDEX_PICKLE,
            FileRead KB_INDEX_PICKLE], corrupt_sys, Inl UnpicklingError)
   \<and> \<not> kb_primary_ok (kb_mcp offline_world ''fever'')
   \<and> kb_agent_hits offline_world loaded_sys ''fever'' 2 =
     Some ([KbMcpPost ''fever'', RagLookup ''fever'' 2], loaded_sys,
           Inr (Hits (JList [JStr ''paracetamol'', JStr ''rest''])))
   \<and> kb_agent_hits offline_world corrupt_sys ''fever'' 2 =
     Some ([KbMcpPost ''fever'', RagLookup ''fever'' 2, PathExists KB_INDEX_PICKLE,
            FileRead KB_INDEX_PICKLE], corrupt_sys, Inl UnpicklingError)"
proof -
  let ?res = "[(''drug_name'', JStr ''aspirin''), (''brand'', JStr ''Bayer Aspirin''),
          (''generic'', JStr ''ASPIRIN''), (''warnings'', JStr ''Reye syndrome warning''),
          (''found'', JBool True)]"
  let ?body = "[(''success'', JBool True), (''result'', JDict ?res)]"
  let ?r = "snd (get_openfda_warnings deployed_world ''aspirin'')"
  have a1: "fda_mcp deployed_world ''aspirin'' = Response 200 (Some (JDict ?body))"
    by (rule deployed_aspirin_answer)
  have a2: "dict_get ?body ''result'' (JDict []) = JDict ?res" by (simp add: dict_get_def)
  have "fst (get_openfda_warnings deployed_world ''aspirin'') = [FdaMcpPost ''aspirin'']
        \<and> drug_name ?r = ''aspirin''
        \<and> brand ?r = dict_get ?res ''brand'' (JStr ''N/A'')
        \<and> generic ?r = dict_get ?res ''generic'' (JStr ''N/A'')
        \<and> warnings ?r = dict_get ?res ''warnings'' (JStr ''No warnings available.'')"
    using remote_first_dispatch [where w = deployed_world and name = "''aspirin''"
        and body = ?body and res = ?res,
        THEN conjunct1] a1 a2 by blast
  moreover have "found ?r" by (simp add: deployed_aspirin_record)
  ultimately have a: "get_openfda_warnings deployed_world ''aspirin'' =
     ([FdaMcpPost ''aspirin''],
      \<lparr>drug_name = ''aspirin'', brand = JStr ''Bayer Aspirin'', generic = JStr ''ASPIRIN'',
       warnings = JStr ''Reye syndrome warning'', found = True\<rparr>)"
    by (cases "get_openfda_warnings deployed_world ''aspirin''") (simp add: dict_get_def)

  let ?ofda = "[(''brand_name'', JList [JStr ''Bayer Aspirin'']),
                (''generic_name'', JList [JStr ''ASPIRIN''])]"
  let ?entry = "[(''openfda'', JDict ?ofda), (''warnings'', JList [JStr ''Reye syndrome warning''])]"
  let ?lbody = "[(''results'', JList [JDict ?entry])]"
  have b1: "\<not> primary_ok (fda_mcp offline_world ''aspirin'')"
    by (simp add: offline_world_def)
  have b2: "openfda offline_world ''brand_name'' ''aspirin'' = Response 200 (Some (JDict ?lbody))"
    by (simp add: offline_world_def label_source_def)
  have b3: "dict_get ?lbody ''results'' (JList []) = JList (JDict ?entry # [])"
    "dict_get ?entry ''openfda'' (JDict []) = JDict ?ofda"
    "dict_get ?ofda ''brand_name'' (JList [JStr ''N/A'']) = JList (JStr ''Bayer Aspirin'' # [])"
    "dict_get ?ofda ''generic_name'' (JList [JStr ''N/A'']) = JList (JStr ''ASPIRIN'' # [])"
    "dict_get ?entry ''warnings'' (JList [JStr ''No warnings available.''])
       = JList (JStr ''Reye syndrome warning'' # [])"
    by (simp_all add: dict_get_def)
  have b: "get_openfda_warnings offline_world ''aspirin'' =
     ([FdaMcpPost ''aspirin'', OpenFdaGet ''brand_name'' ''aspirin''],
      \<lparr>drug_name = ''aspirin'', brand = JStr ''Bayer Aspirin'', generic = JStr ''ASPIRIN'',
       warnings = JStr ''Reye syndrome warning'', found = True\<rparr>)"
    using remote_first_dispatch [where w = offline_world and name = "''aspirin''"
        and resp = "Response 200 (Some (JDict ?lbody))" and lbody = ?lbody and entry = ?entry
        and others = "[]" and ofda = ?ofda and b = "JStr ''Bayer Aspirin''" and bs = "[]"
        and g = "JStr ''ASPIRIN''" and gs = "[]" and wn = "JStr ''Reye syndrome warning''"
        and ws = "[]",
        THEN conjunct2, THEN conjunct2, THEN conjunct1] b1 b2 b3
    by blast

  let ?gofda = "[(''brand_name'', JList [JStr ''Advil'']),
                 (''generic_name'', JList [JStr ''IBUPROFEN''])]"
  let ?gentry = "[(''openfda'', JDict ?gofda),
                  (''warnings'', JList [JStr (replicate 1100 CHR ''a'')])]"
  let ?gbody = "[(''results'', JList [JDict ?gentry])]"
  have g1: "\<not> primary_ok (fda_mcp generic_world ''ibuprofen'')"
    by (simp add: generic_world_def)
  have g2: "no_match (openfda generic_world ''brand_name'' ''ibuprofen'')"
    by (simp add: generic_world_def generic_source_def)
  have g3: "openfda generic_world ''generic_name'' ''ibuprofen''
      = Response 200 (Some (JDict ?gbody))"
    by (simp add: generic_world_def generic_source_def)
  have g4: "dict_get ?gbody ''results'' (JList []) = JList (JDict ?gentry # [])"
    "dict_get ?gentry ''openfda'' (JDict []) = JDict ?gofda"
    "dict_get ?gofda ''brand_name'' (JList [JStr ''N/A'']) = JList (JStr ''Advil'' # [])"
    "dict_get ?gofda ''generic_name'' (JList [JStr ''N/A'']) = JList (JStr ''IBUPROFEN'' # [])"
    "dict_get ?gentry ''warnings'' (JList [JStr ''No warnings available.''])
       = JList (JStr (replicate 1100 CHR ''a'') # [])"
    by (simp_all add: dict_get_def)
  have g: "get_openfda_warnings generic_world ''ibuprofen'' =
     ([FdaMcpPost ''ibuprofen'', OpenFdaGet ''brand_name'' ''ibuprofen'',
       OpenFdaGet ''generic_name'' ''ibuprofen''],
      \<lparr>drug_name = ''ibuprofen'', brand = JStr ''Advil'', generic = JStr ''IBUPROFEN'',
       warnings = JStr (replicate 1100 CHR ''a''), found = True\<rparr>)"
    using remote_first_dispatch [where w = generic_world and name = "''ibuprofen''"
        and resp = "Response 200 (Some (JDict ?gbody))" and lbody = ?gbody and entry = ?gentry
        and others = "[]" and ofda = ?gofda and b = "JStr ''Advil''" and bs = "[]"
        and g = "JStr ''IBUPROFEN''" and gs = "[]" and wn = "JStr (replicate 1100 CHR ''a'')"
        and ws = "[]",
        THEN conjunct2, THEN conjunct2, THEN conjunct1] g1 g2 g3 g4
    by blast

  have n1: "\<not> primary_ok (fda_mcp offline_world ''unknownxyz123'')"
    by (simp add: offline_world_def)
  have n2: "no_match (openfda offline_world ''brand_name'' ''unknownxyz123'')"
    "no_match (openfda offline_world ''generic_name'' ''unknownxyz123'')"
    by (simp_all add: offline_world_def label_source_def)
  have n: "get_openfda_warnings offline_world ''unknownxyz123'' =
     ([FdaMcpPost ''unknownxyz123'', OpenFdaGet ''brand_name'' ''unknownxyz123'',
       OpenFdaGet ''generic_name'' ''unknownxyz123''],
      not_found_record ''unknownxyz123'')"
    using remote_first_dispatch [where w = offline_world and name = "''unknownxyz123''",
        THEN conjunct2, THEN conjunct2, THEN conjunct2, THEN conjunct1] n1 n2
    by blast

  have x1: "\<not> primary_ok (fda_mcp dead_world ''aspirin'')"
    and x2: "openfda dead_world ''brand_name'' ''aspirin'' = NoResponse"
    by (simp_all add: dead_world_def)
  have x: "get_openfda_warnings dead_world ''aspirin'' =
     ([FdaMcpPost ''aspirin'', OpenFdaGet ''brand_name'' ''aspirin''],
      not_found_record ''aspirin'')"
    using remote_first_dispatch [where w = dead_world and name = "''aspirin''",
        THEN conjunct2, THEN conjunct2, THEN conjunct2, THEN conjunct2, THEN conjunct1] x1 x2
    by blast

  let ?kres = "[(''guideline_snippets'', JList [JStr ''Give fluids'']),
               (''query_used'', JStr ''fever'')]"
  let ?kbody = "[(''success'', JBool True), (''result'', JDict ?kres)]"
  have c1: "kb_mcp (kb_world (JList [JStr ''Give fluids''])) ''fever''
      = Response 200 (Some (JDict ?kbody))"
    by (simp add: kb_world_def)
  have c2: "dict_get ?kbody ''result'' (JDict []) = JDict ?kres" by (simp add: dict_get_def)
  have c3: "map_of ?kres ''guideline_snippets'' = Some (JList [JStr ''Give fluids''])" by simp
  have c4: "py_truthy (JList [JStr ''Give fluids''])" by simp
  have c: "kb_agent_hits (kb_world (JList [JStr ''Give fluids''])) loaded_sys ''fever'' 2 =
     Some ([KbMcpPost ''fever''], loaded_sys, Inr (Hits (JList [JStr ''Give fluids''])))"
    using remote_first_dispatch [where w = "kb_world (JList [JStr ''Give fluids''])"
        and query = "''fever''" and kbody = ?kbody and kres = ?kres
        and snippets = "JList [JStr ''Give fluids'']" and s = loaded_sys and k = 2,
        THEN conjunct2, THEN conjunct2, THEN conjunct2, THEN conjunct2, THEN conjunct2, THEN conjunct1]
      c1 c2 c3 c4
    by blast

  let ?eres = "[(''guideline_snippets'', JList []), (''query_used'', JStr ''fever'')]"
  let ?ebody = "[(''success'', JBool True), (''result'', JDict ?eres)]"
  let ?hits = "[\<lparr>passage = ''paracetamol'', score = 0\<rparr>, \<lparr>passage = ''rest'', score = 1\<rparr>]"
  let ?io = "[RagLookup ''fever'' 2, PathExists KB_INDEX_PICKLE, FileRead KB_INDEX_PICKLE]"
  have e1: "kb_mcp (kb_world (JList [])) ''fever'' = Response 200 (Some (JDict ?ebody))"
    by (simp add: kb_world_def)
  have e2: "dict_get ?ebody ''result'' (JDict []) = JDict ?eres" by (simp add: dict_get_def)
  have e3: "map_of ?eres ''guideline_snippets'' = Some (JList [])" by simp
  have e4: "\<not> py_truthy (JList [])" by simp
  have "kb_agent_hits (kb_world (JList [])) loaded_sys ''fever'' 2
            = Some (KbMcpPost ''fever'' # [RagLookup ''fever'' 2], loaded_sys,
                    Inr (if ?hits = [] then NoGuidelines
                         else Hits (JList (map (\<lambda>h. JStr (py_strip (passage h)))
                                            (filter (\<lambda>h. passage h \<noteq> []) ?hits)))))"
    using remote_first_dispatch [where w = "kb_world (JList [])" and query = "''fever''"
        and kbody = ?ebody and kres = ?eres and snippets = "JList []" and s = loaded_sys
        and k = 2 and evs = "[RagLookup ''fever'' 2]" and s' = loaded_sys
        and local_hits = ?hits,
        THEN conjunct2, THEN conjunct2, THEN conjunct2, THEN conjunct2, THEN conjunct2, THEN conjunct2, THEN conjunct1]
      e1 e2 e3 e4 empty_snippets_lookup
    by blast
  then have e: "kb_agent_hits (kb_world (JList [])) loaded_sys ''fever'' 2 =
     Some ([KbMcpPost ''fever'', RagLookup ''fever'' 2], loaded_sys,
           Inr (Hits (JList [JStr ''paracetamol'', JStr ''rest''])))"
    by (simp add: strip_passages)
  have cs: "kb_index_data corrupt_sys = None" "pickle_file corrupt_sys = Corrupt"
    by (simp_all add: corrupt_sys_def)
  have "kb_agent_hits (kb_world (JList [])) corrupt_sys ''fever'' 2
      = Some (KbMcpPost ''fever'' # ?io, corrupt_sys, Inl UnpicklingError)"
    using remote_first_dispatch [where w = "kb_world (JList [])" and query = "''fever''"
        and kbody = ?ebody and kres = ?eres and snippets = "JList []" and s = corrupt_sys
        and k = 2 and evs = ?io and s' = corrupt_sys and e = UnpicklingError,
        THEN conjunct2, THEN conjunct2, THEN conjunct2, THEN conjunct2, THEN conjunct2, THEN conjunct2, THEN conjunct1]
      e1 e2 e3 e4 rag_lookup_corrupt [OF cs, of "kb_world (JList [])" "''fever''" 2]
    by blast
  then have e': "kb_agent_hits (kb_world (JList [])) corrupt_sys ''fever'' 2 =
     Some ([KbMcpPost ''fever'', RagLookup ''fever'' 2, PathExists KB_INDEX_PICKLE,
            FileRead KB_INDEX_PICKLE], corrupt_sys, Inl UnpicklingError)"
    by simp

  have d1: "\<not> kb_primary_ok (kb_mcp offline_world ''fever'')"
    by (simp add: offline_world_def)
  have "kb_agent_hits offline_world loaded_sys ''fever'' 2
            = Some (KbMcpPost ''fever'' # [RagLookup ''fever'' 2], loaded_sys,
                    Inr (if ?hits = [] then NoGuidelines
                         else Hits (JList (map (\<lambda>h. JStr (py_strip (passage h)))
                                            (filter (\<lambda>h. passage h \<noteq> []) ?hits)))))"
    using remote_first_dispatch [where w = offline_world and query = "''fever''"
        and s = loaded_sys and k = 2 and evs = "[RagLookup ''fever'' 2]" and s' = loaded_sys
        and local_hits = ?hits,
        THEN conjunct2, THEN conjunct2, THEN conjunct2, THEN conjunct2, THEN conjunct2, THEN conjunct2, THEN conjunct2]
      d1 offline_lookup
    by blast
  then have d: "kb_agent_hits offline_world loaded_sys ''fever'' 2 =
     Some ([KbMcpPost ''fever'', RagLookup ''fever'' 2], loaded_sys,
           Inr (Hits (JList [JStr ''paracetamol'', JStr ''rest''])))"
    by (simp add: strip_passages)
  have "kb_agent_hits offline_world corrupt_sys ''fever'' 2
      = Some (KbMcpPost ''fever'' # ?io, corrupt_sys, Inl UnpicklingError)"
    using remote_first_dispatch [where w = offline_world and query = "''fever''"
        and s = corrupt_sys and k = 2 and evs = ?io and s' = corrupt_sys
        and e = UnpicklingError,
        THEN conjunct2, THEN conjunct2, THEN conjunct2, THEN conjunct2, THEN conjunct2, THEN conjunct2, THEN conjunct2]
      d1 rag_lookup_corrupt [OF cs, of offline_world "''fever''" 2]
    by blast
  then have d': "kb_agent_hits offline_world corrupt_sys ''fever'' 2 =
     Some ([KbMcpPost ''fever'', RagLookup ''fever'' 2, PathExists KB_INDEX_PICKLE,
            FileRead KB_INDEX_PICKLE], corrupt_sys, Inl UnpicklingError)"
    by simp
  show ?thesis using a b1 b g2 g n x c e e' d1 d d' by (intro conjI) assumption+
qed

lemma rsplit_head_space:
  assumes "CHR '' '' \<in> set s"
  shows "\<exists>j<length s. s ! j = CHR '' '' \<and> CHR '' '' \<notin> set (drop (Suc j) s)
           \<and> rsplit_head s = take j s"
proof -
  let ?P = "\<lambda>c. c \<noteq> CHR '' ''"
  define t where "t = takeWhile ?P (rev s)"
  define d where "d = dropWhile ?P (rev s)"
  have "CHR '' '' \<in> set (rev s)" using assms by simp
  then have "d \<noteq> []" unfolding d_def by (auto simp: dropWhile_eq_Nil_conv)
  moreover have "hd d = CHR '' ''"
    using hd_dropWhile [of ?P "rev s"] \<open>d \<noteq> []\<close> unfolding d_def by simp
  ultimately obtain rest where d: "d = CHR '' '' # rest"
    by (cases d) simp_all
  have "rev s = t @ d" by (simp add: t_def d_def)
  then have "rev (rev s) = rev (t @ CHR '' '' # rest)" using d by simp
  then have s: "s = rev rest @ CHR '' '' # rev t" by simp
  have nt: "CHR '' '' \<notin> set t"
    unfolding t_def using set_takeWhileD [of "CHR '' ''" ?P "rev s"] by auto
  let ?j = "length rest"
  have "?j < length s" by (simp add: s)
  moreover have "s ! ?j = CHR '' ''" by (simp add: s nth_append)
  moreover have "CHR '' '' \<notin> set (drop (Suc ?j) s)" using nt by (simp add: s)
  moreover have "rsplit_head s = rev (tl d)"
    using assms by (simp add: rsplit_head_def d_def)
  then have "rsplit_head s = take ?j s"
    by (simp add: d) (simp add: s)
  ultimately show ?thesis by blast
qed

lemma rsplit_head_length: "length (rsplit_head s) \<le> length s"
proof (cases "CHR '' '' \<in> set s")
  case True
  then obtain j where "rsplit_head s = take j s"
    using rsplit_head_space [of s] by blast
  then show ?thesis by simp
next
  case False
  then show ?thesis by (simp add: rsplit_head_def)
qed

lemma dot_not_space: "\<not> py_isspace CHR ''.''"
  by (simp add: py_isspace_def)

lemma strip_tail:
  "py_strip (pre @ ''...'') = dropWhile py_isspace (pre @ ''...'') "
proof -
  have "\<exists>m. dropWhile py_isspace (pre @ ''...'') = m @ ''...''"
  proof (induction pre)
    case Nil
    show ?case by (simp add: dot_not_space)
  next
    case (Cons c cs)
    show ?case
    proof (cases "py_isspace c")
      case True
      then show ?thesis using Cons by simp
    next
      case False
      then have "dropWhile py_isspace ((c # cs) @ ''...'') = (c # cs) @ ''...''" by simp
      then show ?thesis by blast
    qed
  qed
  then obtain m where m: "dropWhile py_isspace (pre @ ''...'') = m @ ''...''" by blast
  have "rev (dropWhile py_isspace (rev (m @ ''...''))) = m @ ''...''"
    by (simp add: dot_not_space)
  then show ?thesis by (simp only: py_strip_def m)
qed

lemma strip_ellipsis:
  "\<exists>pre. py_strip (xs @ ''...'') = pre @ ''...'' \<and> length pre \<le> length xs"
proof (induction xs)
  case Nil
  have "py_strip ([] @ ''...'') = [] @ ''...''"
    by (simp only: strip_tail) (simp add: dot_not_space)
  then show ?case by (metis le_refl)
next
  case (Cons c cs)
  obtain pre where pre: "py_strip (cs @ ''...'') = pre @ ''...''" "length pre \<le> length cs"
    using Cons by blast
  show ?case
  proof (cases "py_isspace c")
    case True
    then have "py_strip ((c # cs) @ ''...'') = py_strip (cs @ ''...'')"
      by (simp only: strip_tail) simp
    then show ?thesis using pre by (metis le_SucI length_Cons)
  next
    case False
    then have "py_strip ((c # cs) @ ''...'') = (c # cs) @ ''...''"
      by (simp only: strip_tail) simp
    then show ?thesis by (metis le_refl)
  qed
qed

lemma clean_items_strings: "clean_items (map JStr ps) = Inr (map clean_passage ps)"
  by (induction ps) (simp_all add: bind_exn_def)

lemma clean_passage_long:
  assumes "length p > 1000"
  shows "clean_passage p = py_strip (rsplit_head (take 950 p) @ ''...'')"
  using assms by (simp add: clean_passage_def)

text \<open>
  C6 (amended). The truncation is step 3 of \<open>kb_agent\<close> and applies to guideline
  passages: a passage of more than 1000 characters is cut to its first 950 characters,
  then before the last space among them when there is one (otherwise not at all), given
  the suffix \<open>...\<close> and stripped, so it has at most 953 characters and ends in
  \<open>...\<close>; a shorter passage is only stripped. The batch verifier applies no
  truncation: its results are the single lookups, and the warning of a lookup is the
  warnings value of the primary result, or the first warning of the label source's first
  match (under the brand name, else under the generic name), each unchanged, or the
  sentinel text.
\<close>

theorem passage_truncation:
  "(length p > 1000 \<longrightarrow>
       length (clean_passage p) \<le> 953
     \<and> (\<exists>pre. clean_passage p = pre @ ''...'')
     \<and> (CHR '' '' \<in> set (take 950 p) \<longrightarrow>
          (\<exists>j<950. p ! j = CHR '' '' \<and> CHR '' '' \<notin> set (drop (Suc j) (take 950 p))
             \<and> clean_passage p = py_strip (take j p @ ''...'')))
     \<and> (CHR '' '' \<notin> set (take 950 p) \<longrightarrow>
          clean_passage p = py_strip (take 950 p @ ''...'')))
   \<and> (length p \<le> 1000 \<longrightarrow> clean_passage p = py_strip p)
   \<and> raw_passages (JList (map JStr ps)) = Inr (map clean_passage ps)
   \<and> results (snd (get_openfda_warnings_batch w names)) =
       map (\<lambda>n. snd (get_openfda_warnings w n)) (filter (\<lambda>n. n \<noteq> []) (map py_strip names))
   \<and> (fda_mcp w name = Response 200 (Some (JDict body))
        \<and> dict_get body ''result'' (JDict []) = JDict res
      \<longrightarrow> warnings (snd (get_openfda_warnings w name))
            = dict_get res ''warnings'' (JStr ''No warnings available.''))
   \<and> (\<not> primary_ok (fda_mcp w name)
      \<and> resp = Response 200 (Some (JDict lbody))
      \<and> dict_get lbody ''results'' (JList []) = JList (JDict entry # others)
      \<and> dict_get entry ''openfda'' (JDict []) = JDict ofda
      \<and> dict_get ofda ''brand_name'' (JList [JStr ''N/A'']) = JList (b # bs)
      \<and> dict_get ofda ''generic_name'' (JList [JStr ''N/A'']) = JList (g # gs)
      \<and> dict_get entry ''warnings'' (JList [JStr ''No warnings available.'']) = JList (wn # ws)
      \<longrightarrow> (openfda w ''brand_name'' name = resp
            \<longrightarrow> warnings (snd (get_openfda_warnings w name)) = wn)
        \<and> (no_match (openfda w ''brand_name'' name) \<and> openfda w ''generic_name'' name = resp
            \<longrightarrow> warnings (snd (get_openfda_warnings w name)) = wn))
   \<and> (\<not> primary_ok (fda_mcp w name) \<and> no_match (openfda w ''brand_name'' name)
      \<and> no_match (openfda w ''generic_name'' name)
      \<longrightarrow> warnings (snd (get_openfda_warnings w name)) = JStr ''No data found.'')
   \<and> (\<not> primary_ok (fda_mcp w name) \<and> openfda w ''brand_name'' name = NoResponse
      \<longrightarrow> warnings (snd (get_openfda_warnings w name)) = JStr ''No data found.'')"
proof -
  have c1: "length p > 1000 \<longrightarrow>
       length (clean_passage p) \<le> 953
     \<and> (\<exists>pre. clean_passage p = pre @ ''...'')
     \<and> (CHR '' '' \<in> set (take 950 p) \<longrightarrow>
          (\<exists>j<950. p ! j = CHR '' '' \<and> CHR '' '' \<notin> set (drop (Suc j) (take 950 p))
             \<and> clean_passage p = py_strip (take j p @ ''...'')))
     \<and> (CHR '' '' \<notin> set (take 950 p) \<longrightarrow>
          clean_passage p = py_strip (take 950 p @ ''...''))"
  proof (intro conjI impI)
    assume long: "length p > 1000"
    let ?h = "rsplit_head (take 950 p)"
    have cp: "clean_passage p = py_strip (?h @ ''...'')"
      using long by (rule clean_passage_long)
    obtain pre where pre: "py_strip (?h @ ''...'') = pre @ ''...''" "length pre \<le> length ?h"
      using strip_ellipsis [of ?h] by blast
    have "length ?h \<le> length (take 950 p)" by (rule rsplit_head_length)
    then have "length pre \<le> 950" using pre(2) by simp
    then show "length (clean_passage p) \<le> 953" by (simp add: cp pre(1))
    show "\<exists>pre. clean_passage p = pre @ ''...''" using cp pre(1) by auto
    {
      assume sp: "CHR '' '' \<in> set (take 950 p)"
      obtain j where j: "j < length (take 950 p)" "take 950 p ! j = CHR '' ''"
          "CHR '' '' \<notin> set (drop (Suc j) (take 950 p))" "?h = take j (take 950 p)"
        using rsplit_head_space [OF sp] by blast
      have j950: "j < 950" using j(1) by simp
      have "p ! j = CHR '' ''" using j(2) j950 by simp
      moreover have "?h = take j p" using j(4) j950 by (simp add: min_def)
      ultimately show "\<exists>j<950. p ! j = CHR '' '' \<and> CHR '' '' \<notin> set (drop (Suc j) (take 950 p))
               \<and> clean_passage p = py_strip (take j p @ ''...'')"
        using j950 j(3) cp by auto
    }
    {
      assume "CHR '' '' \<notin> set (take 950 p)"
      then show "clean_passage p = py_strip (take 950 p @ ''...'')"
        by (simp add: cp rsplit_head_def)
    }
  qed
  have c2: "length p \<le> 1000 \<longrightarrow> clean_passage p = py_strip p"
    by (simp add: clean_passage_def)
  have c3: "raw_passages (JList (map JStr ps)) = Inr (map clean_passage ps)"
    by (simp add: clean_items_strings)
  have c4: "results (snd (get_openfda_warnings_batch w names)) =
       map (\<lambda>n. snd (get_openfda_warnings w n)) (filter (\<lambda>n. n \<noteq> []) (map py_strip names))"
    by (rule batch_results)
  have c5: "fda_mcp w name = Response 200 (Some (JDict body))
        \<and> dict_get body ''result'' (JDict []) = JDict res
      \<longrightarrow> warnings (snd (get_openfda_warnings w name))
            = dict_get res ''warnings'' (JStr ''No warnings available.'')"
    by (simp add: get_openfda_warnings_snd fda_mcp_attempt_def bind_exn_def)
  have c6: "\<not> primary_ok (fda_mcp w name)
      \<and> resp = Response 200 (Some (JDict lbody))
      \<and> dict_get lbody ''results'' (JList []) = JList (JDict entry # others)
      \<and> dict_get entry ''openfda'' (JDict []) = JDict ofda
      \<and> dict_get ofda ''brand_name'' (JList [JStr ''N/A'']) = JList (b # bs)
      \<and> dict_get ofda ''generic_name'' (JList [JStr ''N/A'']) = JList (g # gs)
      \<and> dict_get entry ''warnings'' (JList [JStr ''No warnings available.'']) = JList (wn # ws)
      \<longrightarrow> (openfda w ''brand_name'' name = resp
            \<longrightarrow> warnings (snd (get_openfda_warnings w name)) = wn)
        \<and> (no_match (openfda w ''brand_name'' name) \<and> openfda w ''generic_name'' name = resp
            \<longrightarrow> warnings (snd (get_openfda_warnings w name)) = wn)"
  proof (intro impI conjI)
    assume a: "\<not> primary_ok (fda_mcp w name)
      \<and> resp = Response 200 (Some (JDict lbody))
      \<and> dict_get lbody ''results'' (JList []) = JList (JDict entry # others)
      \<and> dict_get entry ''openfda'' (JDict []) = JDict ofda
      \<and> dict_get ofda ''brand_name'' (JList [JStr ''N/A'']) = JList (b # bs)
      \<and> dict_get ofda ''generic_name'' (JList [JStr ''N/A'']) = JList (g # gs)
      \<and> dict_get entry ''warnings'' (JList [JStr ''No warnings available.'']) = JList (wn # ws)"
    note ls = lookup_label_source [of w name resp lbody entry others ofda b bs g gs wn ws]
    {
      assume "openfda w ''brand_name'' name = resp"
      then have "get_openfda_warnings w name =
         ([FdaMcpPost name, OpenFdaGet ''brand_name'' name],
          \<lparr>drug_name = name, brand = b, generic = g, warnings = wn, found = True\<rparr>)"
        using a ls(1) by blast
      then show "warnings (snd (get_openfda_warnings w name)) = wn" by simp
    }
    {
      assume "no_match (openfda w ''brand_name'' name) \<and> openfda w ''generic_name'' name = resp"
      then have "get_openfda_warnings w name =
         ([FdaMcpPost name, OpenFdaGet ''brand_name'' name, OpenFdaGet ''generic_name'' name],
          \<lparr>drug_name = name, brand = b, generic = g, warnings = wn, found = True\<rparr>)"
        using a ls(2) by blast
      then show "warnings (snd (get_openfda_warnings w name)) = wn" by simp
    }
  qed
  have c7: "\<not> primary_ok (fda_mcp w name) \<and> no_match (openfda w ''brand_name'' name)
      \<and> no_match (openfda w ''generic_name'' name)
      \<longrightarrow> warnings (snd (get_openfda_warnings w name)) = JStr ''No data found.''"
    using lookup_no_match [of w name] by (auto simp: not_found_record_def)
  have c8: "\<not> primary_ok (fda_mcp w name) \<and> openfda w ''brand_name'' name = NoResponse
      \<longrightarrow> warnings (snd (get_openfda_warnings w name)) = JStr ''No data found.''"
    using lookup_no_response [of w name] by (auto simp: not_found_record_def)
  show ?thesis
    using c1 c2 c3 c4 c5 c6 c7 c8 by (intro conjI) assumption+
qed

lemma long_warning_record:
  "snd (get_openfda_warnings long_warning_world ''aspirin'') =
     \<lparr>drug_name = ''aspirin'', brand = JStr ''B'', generic = JStr ''G'',
      warnings = JStr (replicate 1100 CHR ''a''), found = True\<rparr>"
  by (simp add: get_openfda_warnings_snd fda_mcp_attempt_def long_warning_world_def
      bind_exn_def dict_get_def)

text \<open>
  A warning of 1100 characters reported by the tool server is stored in the batch report
  with all its 1100 characters.
\<close>

theorem batch_warning_not_truncated_counterexample:
  "warnings (hd (results (snd (get_openfda_warnings_batch long_warning_world [''aspirin'']))))
     = JStr (replicate 1100 CHR ''a'')
   \<and> length (replicate 1100 CHR ''a'') = 1100 \<and> \<not> (1100::nat) \<le> 953"
  by (simp add: batch_results strip_examples long_warning_record)

text \<open>
  The theorem at a passage of 1101 characters with one space, at a passage of 1100
  characters without a space, at a short passage, and at the lookups of drugs whose
  warning comes from the tool server (1100 characters), from the label source under the
  brand name, from the label source under the generic name (1100 characters), from no
  match and from no response.
\<close>

theorem passage_truncation_witness:
  "length (replicate 600 CHR ''a'' @ '' '' @ replicate 500 CHR ''b'') > 1000
   \<and> CHR '' '' \<in> set (take 950 (replicate 600 CHR ''a'' @ '' '' @ replicate 500 CHR ''b''))
   \<and> length (clean_passage (replicate 600 CHR ''a'' @ '' '' @ replicate 500 CHR ''b'')) \<le> 953
   \<and> (\<exists>pre. clean_passage (replicate 600 CHR ''a'' @ '' '' @ replicate 500 CHR ''b'')
              = pre @ ''...'')
   \<and> (\<exists>j<950. (replicate 600 CHR ''a'' @ '' '' @ replicate 500 CHR ''b'') ! j = CHR '' ''
         \<and> CHR '' '' \<notin> set (drop (Suc j)
               (take 950 (replicate 600 CHR ''a'' @ '' '' @ replicate 500 CHR ''b'')))
         \<and> clean_passage (replicate 600 CHR ''a'' @ '' '' @ replicate 500 CHR ''b'')
             = py_strip (take j (replicate 600 CHR ''a'' @ '' '' @ replicate 500 CHR ''b'')
                         @ ''...''))
   \<and> length (replicate 1100 CHR ''a'') > 1000
   \<and> CHR '' '' \<notin> set (take 950 (replicate 1100 CHR ''a''))
   \<and> clean_passage (replicate 1100 CHR ''a'')
       = py_strip (take 950 (replicate 1100 CHR ''a'') @ ''...'')
   \<and> length ''fever '' \<le> 1000
   \<and> clean_passage ''fever '' = py_strip ''fever ''
   \<and> warnings (snd (get_openfda_warnings long_warning_world ''aspirin''))
       = JStr (replicate 1100 CHR ''a'')
   \<and> \<not> primary_ok (fda_mcp offline_world ''aspirin'')
   \<and> warnings (snd (get_openfda_warnings offline_world ''aspirin''))
       = JStr ''Reye syndrome warning''
   \<and> no_match (openfda generic_world ''brand_name'' ''ibuprofen'')
   \<and> warnings (snd (get_openfda_warnings generic_world ''ibuprofen''))
       = JStr (replicate 1100 CHR ''a'')
   \<and> no_match (openfda offline_world ''generic_name'' ''unknownxyz123'')
   \<and> warnings (snd (get_openfda_warnings offline_world ''unknownxyz123''))
       = JStr ''No data found.''
   \<and> openfda dead_world ''brand_name'' ''aspirin'' = NoResponse
   \<and> warnings (snd (get_openfda_warnings dead_world ''aspirin'')) = JStr ''No data found.''"
proof -
  let ?p = "replicate 600 CHR ''a'' @ '' '' @ replicate 500 CHR ''b''"
  let ?q = "replicate 1100 CHR ''a''"
  have a1: "length ?p > 1000" by simp
  have a2: "CHR '' '' \<in> set (take 950 ?p)" by simp
  have a: "length (clean_passage ?p) \<le> 953
     \<and> (\<exists>pre. clean_passage ?p = pre @ ''...'')
     \<and> (\<exists>j<950. ?p ! j = CHR '' '' \<and> CHR '' '' \<notin> set (drop (Suc j) (take 950 ?p))
             \<and> clean_passage ?p = py_strip (take j ?p @ ''...''))"
    using passage_truncation [where p = ?p, THEN conjunct1] a1 a2 by blast
  have b1: "length ?q > 1000" by simp
  have b2: "CHR '' '' \<notin> set (take 950 ?q)" by simp
  have b: "clean_passage ?q = py_strip (take 950 ?q @ ''...'')"
    using passage_truncation [where p = ?q, THEN conjunct1] b1 b2 by blast
  have c1: "length ''fever '' \<le> 1000" by simp
  have c: "clean_passage ''fever '' = py_strip ''fever ''"
    using passage_truncation [where p = "''fever ''", THEN conjunct2, THEN conjunct1] c1
    by blast
  let ?res = "[(''drug_name'', JStr ''aspirin''), (''brand'', JStr ''B''),
                     (''generic'', JStr ''G''), (''warnings'', JStr ?q),
                     (''found'', JBool True)]"
  let ?body = "[(''success'', JBool True), (''result'', JDict ?res)]"
  have d1: "fda_mcp long_warning_world ''aspirin'' = Response 200 (Some (JDict ?body))"
    by (simp add: long_warning_world_def)
  have d2: "dict_get ?body ''result'' (JDict []) = JDict ?res" by (simp add: dict_get_def)
  have "warnings (snd (get_openfda_warnings long_warning_world ''aspirin''))
      = dict_get ?res ''warnings'' (JStr ''No warnings available.'')"
    using passage_truncation [where w = long_warning_world and name = "''aspirin''"
        and body = ?body and res = ?res,
        THEN conjunct2, THEN conjunct2, THEN conjunct2, THEN conjunct2, THEN conjunct1] d1 d2
    by blast
  then have d: "warnings (snd (get_openfda_warnings long_warning_world ''aspirin'')) = JStr ?q"
    by (simp add: dict_get_def)

  let ?ofda = "[(''brand_name'', JList [JStr ''Bayer Aspirin'']),
                (''generic_name'', JList [JStr ''ASPIRIN''])]"
  let ?entry = "[(''openfda'', JDict ?ofda), (''warnings'', JList [JStr ''Reye syndrome warning''])]"
  let ?lbody = "[(''results'', JList [JDict ?entry])]"
  have e1: "\<not> primary_ok (fda_mcp offline_world ''aspirin'')"
    by (simp add: offline_world_def)
  have e2: "openfda offline_world ''brand_name'' ''aspirin'' = Response 200 (Some (JDict ?lbody))"
    by (simp add: offline_world_def label_source_def)
  have e3: "dict_get ?lbody ''results'' (JList []) = JList (JDict ?entry # [])"
    "dict_get ?entry ''openfda'' (JDict []) = JDict ?ofda"
    "dict_get ?ofda ''brand_name'' (JList [JStr ''N/A'']) = JList (JStr ''Bayer Aspirin'' # [])"
    "dict_get ?ofda ''generic_name'' (JList [JStr ''N/A'']) = JList (JStr ''ASPIRIN'' # [])"
    "dict_get ?entry ''warnings'' (JList [JStr ''No warnings available.''])
       = JList (JStr ''Reye syndrome warning'' # [])"
    by (simp_all add: dict_get_def)
  have e: "warnings (snd (get_openfda_warnings offline_world ''aspirin''))
      = JStr ''Reye syndrome warning''"
    using passage_truncation [where w = offline_world and name = "''aspirin''"
        and resp = "Response 200 (Some (JDict ?lbody))" and lbody = ?lbody and entry = ?entry
        and others = "[]" and ofda = ?ofda and b = "JStr ''Bayer Aspirin''" and bs = "[]"
        and g = "JStr ''ASPIRIN''" and gs = "[]" and wn = "JStr ''Reye syndrome warning''"
        and ws = "[]",
        THEN conjunct2, THEN conjunct2, THEN conjunct2, THEN conjunct2, THEN conjunct2,
        THEN conjunct1] e1 e2 e3
    by blast

  let ?gofda = "[(''brand_name'', JList [JStr ''Advil'']),
                 (''generic_name'', JList [JStr ''IBUPROFEN''])]"
  let ?gentry = "[(''openfda'', JDict ?gofda), (''warnings'', JList [JStr ?q])]"
  let ?gbody = "[(''results'', JList [JDict ?gentry])]"
  have g1: "\<not> primary_ok (fda_mcp generic_world ''ibuprofen'')"
    by (simp add: generic_world_def)
  have g2: "no_match (openfda generic_world ''brand_name'' ''ibuprofen'')"
    by (simp add: generic_world_def generic_source_def)
  have g3: "openfda generic_world ''generic_name'' ''ibuprofen''
      = Response 200 (Some (JDict ?gbody))"
    by (simp add: generic_world_def generic_source_def)
  have g4: "dict_get ?gbody ''results'' (JList []) = JList (JDict ?gentry # [])"
    "dict_get ?gentry ''openfda'' (JDict []) = JDict ?gofda"
    "dict_get ?gofda ''brand_name'' (JList [JStr ''N/A'']) = JList (JStr ''Advil'' # [])"
    "dict_get ?gofda ''generic_name'' (JList [JStr ''N/A'']) = JList (JStr ''IBUPROFEN'' # [])"
    "dict_get ?gentry ''warnings'' (JList [JStr ''No warnings available.''])
       = JList (JStr ?q # [])"
    by (simp_all add: dict_get_def)
  have g: "warnings (snd (get_openfda_warnings generic_world ''ibuprofen'')) = JStr ?q"
    using passage_truncation [where w = generic_world and name = "''ibuprofen''"
        and resp = "Response 200 (Some (JDict ?gbody))" and lbody = ?gbody and entry = ?gentry
        and others = "[]" and ofda = ?gofda and b = "JStr ''Advil''" and bs = "[]"
        and g = "JStr ''IBUPROFEN''" and gs = "[]" and wn = "JStr ?q" and ws = "[]",
        THEN conjunct2, THEN conjunct2, THEN conjunct2, THEN conjunct2, THEN conjunct2,
        THEN conjunct1] g1 g2 g3 g4
    by blast

  have n1: "\<not> primary_ok (fda_mcp offline_world ''unknownxyz123'')"
    by (simp add: offline_world_def)
  have n2: "no_match (openfda offline_world ''brand_name'' ''unknownxyz123'')"
    and n3: "no_match (openfda offline_world ''generic_name'' ''unknownxyz123'')"
    by (simp_all add: offline_world_def label_source_def)
  have n: "warnings (snd (get_openfda_warnings offline_world ''unknownxyz123''))
      = JStr ''No data found.''"
    using passage_truncation [where w = offline_world and name = "''unknownxyz123''",
        THEN conjunct2, THEN conjunct2, THEN conjunct2, THEN conjunct2, THEN conjunct2,
        THEN conjunct2, THEN conjunct1] n1 n2 n3
    by blast

  have x1: "\<not> primary_ok (fda_mcp dead_world ''aspirin'')"
    and x2: "openfda dead_world ''brand_name'' ''aspirin'' = NoResponse"
    by (simp_all add: dead_world_def)
  have x: "warnings (snd (get_openfda_warnings dead_world ''aspirin'')) = JStr ''No data found.''"
    using passage_truncation [where w = dead_world and name = "''aspirin''",
        THEN conjunct2, THEN conjunct2, THEN conjunct2, THEN conjunct2, THEN conjunct2,
        THEN conjunct2, THEN conjunct2] x1 x2
    by blast
  show ?thesis
    using a1 a2 a b1 b2 b c1 c d e1 e g2 g n3 n x2 x by (intro conjI; blast)
qed

section \<open>Termination of the index build and of the lookup\<close>

lemma chunk_text_300_50_returns: "\<exists>ps. chunk_text t 300 50 = Some ps"
  using chunk_loop_starts [of 50 300 "py_split t" 0 "[]"] by (simp add: chunk_text_def)

lemma build_kb_index_returns: "\<exists>r. build_kb_index w s = Some r"
proof (cases "stg_pdf s")
  case None
  then show ?thesis by (simp add: build_kb_index_def)
next
  case (Some pages)
  obtain ps where "chunk_text (collapse_newlines (py_join [CHR 0x0A] pages)) 300 50 = Some ps"
    using chunk_text_300_50_returns by blast
  then show ?thesis
    using Some by (simp add: build_kb_index_def extract_text_from_pdf_def Let_def)
qed

lemma build_kb_index_consistent:
  "build_kb_index w s = Some (evs, s', Inr d) \<Longrightarrow> length (index d) = length (passages d)"
  by (auto simp: build_kb_index_def extract_text_from_pdf_def Let_def
      split: option.splits if_splits)

lemma ensure_kb_index_returns: "\<exists>r. ensure_kb_index w s = Some r"
proof (cases "kb_index_data s")
  case (Some d)
  then show ?thesis by (simp add: ensure_kb_index_def)
next
  case None
  obtain r where r: "build_kb_index w s = Some r"
    using build_kb_index_returns by blast
  obtain evs s' res where "r = (evs, s', res)" by (cases r) auto
  then show ?thesis
    using None r
    by (cases res; cases "pickle_file s"; cases "stg_pdf s")
       (simp_all add: ensure_kb_index_def load_kb_index_def)
qed

lemma rag_lookup_kb_returns: "\<exists>r. rag_lookup_kb w s query k = Some r"
proof -
  obtain evs s' res where r: "ensure_kb_index w s = Some (evs, s', res)"
    using ensure_kb_index_returns [of w s] by (metis prod_cases3)
  show ?thesis
  proof (cases res)
    case (Inl e)
    then show ?thesis using r by (simp add: rag_lookup_kb_def)
  next
    case (Inr x)
    then show ?thesis using r
      by (cases x) (simp_all add: rag_lookup_kb_def split: prod.splits)
  qed
qed

end
